theory Spec2Isabelle
  imports Complex_Main
begin

section \<open>The bSpheres add-on: data model\<close>

text \<open>
  The add-on consists of two operators and one panel, all written against the host's
  Python interface.  The host's objects are embedded as records; the parts of the host
  that the add-on only calls (baking a modifier, voxel remeshing) are parameters of the
  model, so every theorem holds for every behaviour of the host.

  Floating point values (coordinates, the voxel size) are only stored and copied by
  the add-on, never computed with; they are embedded as reals.
\<close>

record vert =
  co :: "real \<times> real \<times> real"
  select :: bool
  use_root :: bool
  use_loose :: bool

type_synonym geometry = "vert list \<times> (nat \<times> nat) list \<times> nat list list"

text \<open>
  A mesh datablock: its geometry, the \<^verbatim>\<open>remesh_voxel_size\<close> setting, and whether it
  carries the per-vertex skin layer (which holds \<open>use_root\<close> and \<open>use_loose\<close>).
\<close>

record mesh =
  vertices :: "vert list"
  edges :: "(nat \<times> nat) list"
  polygons :: "nat list list"
  remesh_voxel_size :: real
  has_skin_vertices :: bool

text \<open>
  A modifier has a name and the settings of its type.  Of each type only the attributes
  the add-on touches are kept: \<^verbatim>\<open>use_axis\<close> of a Mirror modifier, the three symmetry
  flags of a Skin modifier, \<^verbatim>\<open>levels\<close> and \<^verbatim>\<open>render_levels\<close> of a Subdivision
  modifier.
\<close>

datatype modifier_settings =
    MirrorModifier "bool \<times> bool \<times> bool"
  | SkinModifier bool bool bool
  | SubsurfModifier int int
  | OtherModifier string

record modifier =
  name :: string
  settings :: modifier_settings

text \<open>
  \<^verbatim>\<open>obj.data\<close> is a mesh for an object of type \<^verbatim>\<open>'MESH'\<close>.  Every other object
  (an empty, a camera, a curve) is \<open>NoData\<close>: its data is \<^verbatim>\<open>None\<close> or a datablock
  without the mesh attributes.
\<close>

datatype object_data = MeshData mesh | NoData

record object =
  data :: object_data
  modifiers :: "modifier list"
  mode :: string

datatype exception = AttributeError | RuntimeError string

datatype 'a result = Return 'a | Raise exception

text \<open>
  The calls the Finalizer makes to the host's operators are logged with the object they
  were made on and whether they succeeded.  The log is not part of the add-on; it is
  what an observer of the host would see.
\<close>

datatype host_call =
    ModifierApply string "object option" bool
  | VoxelRemesh "object option" bool

text \<open>
  \<^verbatim>\<open>context.space_data\<close>: its \<^verbatim>\<open>type\<close> and, for a 3D view, \<^verbatim>\<open>shading.show_xray\<close>.
\<close>

record space =
  space_type :: string
  show_xray :: bool

text \<open>
  The part of \<^verbatim>\<open>context\<close> the add-on and the host helpers it calls read and write:
  \<^verbatim>\<open>context.object\<close> (the same as \<^verbatim>\<open>context.active_object\<close>);
  \<^verbatim>\<open>context.space_data\<close>, which is \<^verbatim>\<open>None\<close> when the operator is run without a
  window (in background mode, from a script or a timer);
  \<^verbatim>\<open>context.scene.library\<close>, which is \<^verbatim>\<open>None\<close> unless the scene is linked from
  another file; the preference \<^verbatim>\<open>context.preferences.edit.use_enter_edit_mode\<close>.  With
  it the messages of \<^verbatim>\<open>self.report\<close> and the log of host calls.
\<close>

record state =
  active_object :: "object option"
  space_data :: "space option"
  scene_library :: "string option"
  use_enter_edit_mode :: bool
  reports :: "(string \<times> string) list"
  calls :: "host_call list"

text \<open>
  What the host answers when asked to bake a modifier of an object, or to voxel-remesh
  it: a message (the call raises \<^verbatim>\<open>RuntimeError\<close> with it) or the new geometry.
\<close>

record host =
  modifier_apply_result :: "object \<Rightarrow> string \<Rightarrow> string + geometry"
  voxel_remesh_result :: "object \<Rightarrow> string + geometry"

definition object_type :: "object \<Rightarrow> string" where
  "object_type ob = (case data ob of MeshData _ \<Rightarrow> ''MESH'' | NoData \<Rightarrow> ''EMPTY'')"

text \<open>
  \<^verbatim>\<open>context.mode\<close> is derived from the active object: \<^verbatim>\<open>'OBJECT'\<close> without one,
  \<^verbatim>\<open>'EDIT_MESH'\<close> for a mesh in edit mode; the paint modes of an object have other
  names as context modes.
\<close>

definition context_mode :: "state \<Rightarrow> string" where
  "context_mode s =
     (case active_object s of
        None \<Rightarrow> ''OBJECT''
      | Some ob \<Rightarrow>
          if mode ob = ''EDIT'' then ''EDIT_'' @ object_type ob
          else if mode ob = ''WEIGHT_PAINT'' then ''PAINT_WEIGHT''
          else if mode ob = ''VERTEX_PAINT'' then ''PAINT_VERTEX''
          else if mode ob = ''TEXTURE_PAINT'' then ''PAINT_TEXTURE''
          else mode ob)"

text \<open>\<^verbatim>\<open>obj.modifiers.get(name)\<close>: the first modifier of that name, or \<^verbatim>\<open>None\<close>.\<close>

definition modifiers_get :: "object \<Rightarrow> string \<Rightarrow> modifier option" where
  "modifiers_get ob nm = find (\<lambda>m. name m = nm) (modifiers ob)"

definition report :: "string \<Rightarrow> string \<Rightarrow> state \<Rightarrow> state" where
  "report level msg s = s\<lparr>reports := reports s @ [(level, msg)]\<rparr>"

section \<open>The host operators the Finalizer calls\<close>

definition set_geometry :: "mesh \<Rightarrow> geometry \<Rightarrow> mesh" where
  "set_geometry m g =
     (case g of (vs, es, fs) \<Rightarrow> m\<lparr>vertices := vs, edges := es, polygons := fs\<rparr>)"

fun remove_modifier :: "string \<Rightarrow> modifier list \<Rightarrow> modifier list" where
  "remove_modifier nm [] = []"
| "remove_modifier nm (m # ms) = (if name m = nm then ms else m # remove_modifier nm ms)"

definition poll_failed :: exception where
  "poll_failed = RuntimeError ''poll() failed, context is incorrect''"

text \<open>
  \<^verbatim>\<open>bpy.ops.object.modifier_apply(modifier=nm)\<close>.  It needs an active object with a
  modifier of that name; then the host bakes or refuses.  A successful bake replaces the
  geometry and removes the modifier from the stack; a refused one changes nothing.
\<close>

definition ops_object_modifier_apply :: "host \<Rightarrow> string \<Rightarrow> state \<Rightarrow> unit result \<times> state" where
  "ops_object_modifier_apply h nm s =
     (let failed = s\<lparr>calls := calls s @ [ModifierApply nm (active_object s) False]\<rparr> in
      case active_object s of
        None \<Rightarrow> (Raise poll_failed, failed)
      | Some ob \<Rightarrow>
          if modifiers_get ob nm = None then (Raise poll_failed, failed)
          else
            (case modifier_apply_result h ob nm of
               Inl msg \<Rightarrow> (Raise (RuntimeError msg), failed)
             | Inr g \<Rightarrow>
                 (Return (),
                  s\<lparr>active_object :=
                       Some (ob\<lparr>data :=
                                  (case data ob of
                                     MeshData m \<Rightarrow> MeshData (set_geometry m g)
                                   | NoData \<Rightarrow> NoData),
                                modifiers := remove_modifier nm (modifiers ob)\<rparr>),
                    calls := calls s @ [ModifierApply nm (Some ob) True]\<rparr>)))"

text \<open>
  \<^verbatim>\<open>bpy.ops.object.voxel_remesh()\<close>.  It needs an active mesh object; then the host
  remeshes or refuses.  A refused remesh changes nothing.
\<close>

definition ops_object_voxel_remesh :: "host \<Rightarrow> state \<Rightarrow> unit result \<times> state" where
  "ops_object_voxel_remesh h s =
     (let failed = s\<lparr>calls := calls s @ [VoxelRemesh (active_object s) False]\<rparr> in
      case active_object s of
        None \<Rightarrow> (Raise poll_failed, failed)
      | Some ob \<Rightarrow>
          (case data ob of
             NoData \<Rightarrow> (Raise poll_failed, failed)
           | MeshData m \<Rightarrow>
               (case voxel_remesh_result h ob of
                  Inl msg \<Rightarrow> (Raise (RuntimeError msg), failed)
                | Inr g \<Rightarrow>
                    (Return (),
                     s\<lparr>active_object := Some (ob\<lparr>data := MeshData (set_geometry m g)\<rparr>),
                       calls := calls s @ [VoxelRemesh (Some ob) True]\<rparr>))))"

section \<open>The Finalizer: \<^verbatim>\<open>OBJECT_OT_ApplyBSphereModifiers\<close>\<close>

text \<open>The operator's \<^verbatim>\<open>voxel_size\<close> property: default and bounds.\<close>

definition voxel_size_default :: real where
  "voxel_size_default = 0.05"



definition OBJECT_OT_ApplyBSphereModifiers_poll :: "state \<Rightarrow> bool" where
  "OBJECT_OT_ApplyBSphereModifiers_poll s =
     (active_object s \<noteq> None \<and> context_mode s = ''OBJECT'')"

definition modifiers_to_apply :: "string list" where
  "modifiers_to_apply = [''Mirror'', ''Skin'', ''Subdivision'']"

text \<open>
  The body of the loop over \<^verbatim>\<open>modifiers_to_apply\<close>.  \<^verbatim>\<open>obj\<close> is the active object
  read at the start of \<^verbatim>\<open>execute\<close>; without one, \<^verbatim>\<open>obj.modifiers\<close> raises.  Only
  \<^verbatim>\<open>RuntimeError\<close> is caught.
\<close>

definition apply_one :: "host \<Rightarrow> string \<Rightarrow> state \<Rightarrow> unit result \<times> state" where
  "apply_one h mod_name s =
     (case active_object s of
        None \<Rightarrow> (Raise AttributeError, s)
      | Some obj \<Rightarrow>
          (case modifiers_get obj mod_name of
             None \<Rightarrow> (Return (), s)
           | Some md \<Rightarrow>
               (case ops_object_modifier_apply h (name md) s of
                  (Return u, s') \<Rightarrow> (Return u, s')
                | (Raise (RuntimeError e), s') \<Rightarrow>
                    (Return (), report ''WARNING'' (''Could not apply modifier: '' @ name md) s')
                | (Raise e, s') \<Rightarrow> (Raise e, s'))))"

fun apply_loop :: "host \<Rightarrow> string list \<Rightarrow> state \<Rightarrow> unit result \<times> state" where
  "apply_loop h [] s = (Return (), s)"
| "apply_loop h (mod_name # rest) s =
     (case apply_one h mod_name s of
        (Return _, s') \<Rightarrow> apply_loop h rest s'
      | (Raise e, s') \<Rightarrow> (Raise e, s'))"

text \<open>
  \<^verbatim>\<open>execute\<close>.  Its first statement reads \<^verbatim>\<open>context.space_data.type\<close>: without a
  space this raises \<^verbatim>\<open>AttributeError\<close>, before anything else is done.
\<close>

definition OBJECT_OT_ApplyBSphereModifiers_execute ::
    "host \<Rightarrow> real \<Rightarrow> state \<Rightarrow> string set result \<times> state" where
  "OBJECT_OT_ApplyBSphereModifiers_execute h voxel_size s0 =
     (case space_data s0 of
        None \<Rightarrow> (Raise AttributeError, s0)
      | Some sp \<Rightarrow>
     (let s1 = (if space_type sp = ''VIEW_3D''
                then s0\<lparr>space_data := Some (sp\<lparr>show_xray := False\<rparr>)\<rparr> else s0) in
      case apply_loop h modifiers_to_apply s1 of
        (Raise e, s2) \<Rightarrow> (Raise e, s2)
      | (Return _, s2) \<Rightarrow>
          (case active_object s2 of
             None \<Rightarrow> (Raise AttributeError, s2)
           | Some obj \<Rightarrow>
               (case data obj of
                  NoData \<Rightarrow> (Raise AttributeError, s2)
                | MeshData mesh \<Rightarrow>
                    (let s3 = s2\<lparr>active_object :=
                                  Some (obj\<lparr>data :=
                                    MeshData (mesh\<lparr>remesh_voxel_size := voxel_size\<rparr>)\<rparr>)\<rparr>
                     in
                       case ops_object_voxel_remesh h s3 of
                         (Return _, s4) \<Rightarrow>
                           (Return {''FINISHED''},
                            report ''INFO'' ''bSphere mesh applied and remeshed.'' s4)
                       | (Raise (RuntimeError e), s4) \<Rightarrow>
                           (Return {''FINISHED''},
                            report ''ERROR'' (''Remesh failed: '' @ e) s4)
                       | (Raise e, s4) \<Rightarrow> (Raise e, s4))))))"

section \<open>The Base Creator: \<^verbatim>\<open>MESH_OT_PrimitiveBSphereAdd\<close>\<close>

subsection \<open>Host primitives it calls\<close>

text \<open>
  \<^verbatim>\<open>bpy.data.meshes.new(name)\<close>: an empty mesh datablock with the host's default
  settings (the datablock's name plays no role here).
\<close>

definition data_meshes_new :: "string \<Rightarrow> mesh" where
  "data_meshes_new nm =
     \<lparr>vertices = [], edges = [], polygons = [], remesh_voxel_size = 0.1,
      has_skin_vertices = False\<rparr>"

record bmesh =
  bm_verts :: "vert list"
  bm_edges :: "(nat \<times> nat) list"
  bm_faces :: "nat list list"

definition bmesh_new :: bmesh where
  "bmesh_new = \<lparr>bm_verts = [], bm_edges = [], bm_faces = []\<rparr>"

definition bm_verts_new :: "real \<times> real \<times> real \<Rightarrow> bmesh \<Rightarrow> bmesh" where
  "bm_verts_new c bm =
     bm\<lparr>bm_verts := bm_verts bm @
          [\<lparr>co = c, select = False, use_root = False, use_loose = False\<rparr>]\<rparr>"

definition bm_to_mesh :: "bmesh \<Rightarrow> mesh \<Rightarrow> mesh" where
  "bm_to_mesh bm m =
     m\<lparr>vertices := bm_verts bm, edges := bm_edges bm, polygons := bm_faces bm\<rparr>"

text \<open>
  Joining the mesh \<open>new\<close> into the mesh \<open>act\<close>, as \<^verbatim>\<open>bpy.ops.object.join()\<close> does:
  the elements of \<open>new\<close> are appended, their vertex indices shifted; the result has the
  skin layer if one of the two has it.
\<close>

definition join_mesh :: "mesh \<Rightarrow> mesh \<Rightarrow> mesh" where
  "join_mesh act new =
     (let n = length (vertices act) in
      act\<lparr>vertices := vertices act @ vertices new,
          edges := edges act @ map (\<lambda>e. (fst e + n, snd e + n)) (edges new),
          polygons := polygons act @ map (map (\<lambda>i. i + n)) (polygons new),
          has_skin_vertices := (has_skin_vertices act \<or> has_skin_vertices new)\<rparr>)"

definition select_all_verts :: "string \<Rightarrow> vert list \<Rightarrow> vert list" where
  "select_all_verts a vs =
     (if a = ''SELECT'' then map (\<lambda>v. v\<lparr>select := True\<rparr>) vs
      else if a = ''DESELECT'' then map (\<lambda>v. v\<lparr>select := False\<rparr>) vs
      else if a = ''INVERT'' then map (\<lambda>v. v\<lparr>select := \<not> select v\<rparr>) vs
      else map (\<lambda>v. v\<lparr>select := \<not> list_ex select vs\<rparr>) vs)"

text \<open>
  \<^verbatim>\<open>object_data_add(context, obdata, operator=self)\<close> of \<^verbatim>\<open>bpy_extras.object_utils\<close>.
  It makes a new object \<^verbatim>\<open>obj_new\<close> holding the mesh, with an empty modifier stack, in
  object mode.  Then there are two cases.

  \<^item> The active object is in edit mode and of the type of the new object
    (\<^verbatim>\<open>obj_act and obj_act.mode == 'EDIT' and obj_act.type == obj_new.type\<close>): the helper
    deselects everything in the edited mesh, leaves edit mode, joins the new object into
    the active one, removes the new mesh datablock and enters edit mode again.  No new
    object remains: the active object is the old one, with its modifier stack, and its
    mesh has the new elements appended.

  \<^item> Otherwise the new object becomes the active object; with the preference
    \<^verbatim>\<open>use_enter_edit_mode\<close> the helper puts it into edit mode.

  The placement of the object, taken from the operator's transform properties, is not
  modelled.
\<close>

definition object_data_add :: "state \<Rightarrow> mesh \<Rightarrow> state" where
  "object_data_add context obdata =
     (let obj_new = \<lparr>data = MeshData obdata, modifiers = [], mode = ''OBJECT''\<rparr>;
          new_active =
            context\<lparr>active_object :=
              Some (if use_enter_edit_mode context then obj_new\<lparr>mode := ''EDIT''\<rparr>
                    else obj_new)\<rparr>
      in
        case active_object context of
          None \<Rightarrow> new_active
        | Some obj_act \<Rightarrow>
            if mode obj_act = ''EDIT'' \<and> object_type obj_act = object_type obj_new then
              (case data obj_act of
                 NoData \<Rightarrow> new_active
               | MeshData me \<Rightarrow>
                   context\<lparr>active_object :=
                     Some (obj_act\<lparr>data :=
                       MeshData
                         (join_mesh
                            (me\<lparr>vertices := select_all_verts ''DESELECT'' (vertices me)\<rparr>)
                            obdata),
                       mode := ''EDIT''\<rparr>)\<rparr>)
            else new_active)"

text \<open>
  The host keeps the names of a stack unique (\<^verbatim>\<open>BLI_uniquename\<close>).  A name already
  taken is split into its stem and a numeric suffix after the last \<^verbatim>\<open>.\<close> (no suffix
  counts as 0), and the number is increased until the name \<^verbatim>\<open>stem.NNN\<close> is free.
  (The truncation of names to the host's length limit is not modelled.)
\<close>

fun decimal :: "nat \<Rightarrow> string" where
  "decimal n =
     (if n < 10 then [''0123456789'' ! n]
      else decimal (n div 10) @ [''0123456789'' ! (n mod 10)])"

definition pad3 :: "nat \<Rightarrow> string" where
  "pad3 n = replicate (3 - length (decimal n)) (CHR ''0'') @ decimal n"

definition is_digit :: "char \<Rightarrow> bool" where
  "is_digit c = (c \<in> set ''0123456789'')"

definition digit_value :: "char \<Rightarrow> nat" where
  "digit_value c = length (takeWhile (\<lambda>d. d \<noteq> c) ''0123456789'')"

definition atol :: "string \<Rightarrow> nat" where
  "atol ds = foldl (\<lambda>n d. 10 * n + digit_value d) 0 ds"

definition split_name_num :: "string \<Rightarrow> string \<times> nat" where
  "split_name_num nm =
     (if length nm > 1 \<and> last nm = CHR ''.'' then (nm, 0)
      else
        (case dropWhile is_digit (rev nm) of
           [] \<Rightarrow> (nm, 0)
         | c # left \<Rightarrow>
             if c = CHR ''.'' then (rev left, atol (rev (takeWhile is_digit (rev nm))))
             else (nm, 0)))"

definition unique_name :: "string list \<Rightarrow> string \<Rightarrow> string" where
  "unique_name taken nm =
     (if nm \<notin> set taken then nm
      else
        (case split_name_num nm of
           (left, number) \<Rightarrow>
             (case find (\<lambda>k. left @ ''.'' @ pad3 k \<notin> set taken)
                     [number + 1 ..< number + length taken + 2] of
                Some k \<Rightarrow> left @ ''.'' @ pad3 k
              | None \<Rightarrow> nm)))"

text \<open>
  The types of modifier the add-on creates, the name the host gives a modifier of each
  type when none is passed, and the settings it starts with (the host's defaults).
\<close>

datatype modifier_type = MIRROR | SKIN | SUBSURF

fun default_name :: "modifier_type \<Rightarrow> string" where
  "default_name MIRROR = ''Mirror''"
| "default_name SKIN = ''Skin''"
| "default_name SUBSURF = ''Subdivision''"

fun new_settings :: "modifier_type \<Rightarrow> modifier_settings" where
  "new_settings MIRROR = MirrorModifier (True, False, False)"
| "new_settings SKIN = SkinModifier True False False"
| "new_settings SUBSURF = SubsurfModifier 1 2"

text \<open>
  The host's \<^verbatim>\<open>BKE_mesh_ensure_skin_customdata\<close>: a mesh without the skin layer gets
  it, with all marks clear, and its first vertex is marked as root.
\<close>

definition ensure_skin_customdata :: "mesh \<Rightarrow> mesh" where
  "ensure_skin_customdata m =
     (if has_skin_vertices m then m
      else
        m\<lparr>has_skin_vertices := True,
          vertices :=
            (case map (\<lambda>v. v\<lparr>use_root := False, use_loose := False\<rparr>) (vertices m) of
               [] \<Rightarrow> []
             | v # vs \<Rightarrow> v\<lparr>use_root := True\<rparr> # vs)\<rparr>)"

text \<open>
  \<^verbatim>\<open>obj.modifiers.new(name, type)\<close> appends a modifier to the stack and returns a
  reference to it, here its name in the stack.  Adding a Skin modifier makes sure the
  mesh has its skin layer.  An object that does not support modifiers gets none, and
  the call returns \<^verbatim>\<open>None\<close>.
\<close>

definition modifiers_new ::
    "object \<Rightarrow> string \<Rightarrow> modifier_type \<Rightarrow> string option \<times> object" where
  "modifiers_new ob nm ty =
     (case data ob of
        NoData \<Rightarrow> (None, ob)
      | MeshData m \<Rightarrow>
          (let nm' = unique_name (map name (modifiers ob))
                       (if nm = [] then default_name ty else nm)
           in (Some nm',
               ob\<lparr>data := MeshData (if ty = SKIN then ensure_skin_customdata m else m),
                  modifiers := modifiers ob @ [\<lparr>name = nm', settings = new_settings ty\<rparr>]\<rparr>)))"

text \<open>
  Assignment to an attribute of a modifier.  \<^verbatim>\<open>None\<close> and a modifier of another type
  do not have the attribute: the assignment raises \<^verbatim>\<open>AttributeError\<close>.
\<close>

fun set_use_axis :: "bool \<times> bool \<times> bool \<Rightarrow> modifier_settings \<Rightarrow> modifier_settings option" where
  "set_use_axis v (MirrorModifier _) = Some (MirrorModifier v)"
| "set_use_axis v _ = None"

fun set_use_x_symmetry :: "bool \<Rightarrow> modifier_settings \<Rightarrow> modifier_settings option" where
  "set_use_x_symmetry v (SkinModifier x y z) = Some (SkinModifier v y z)"
| "set_use_x_symmetry v _ = None"

fun set_use_y_symmetry :: "bool \<Rightarrow> modifier_settings \<Rightarrow> modifier_settings option" where
  "set_use_y_symmetry v (SkinModifier x y z) = Some (SkinModifier x v z)"
| "set_use_y_symmetry v _ = None"

fun set_use_z_symmetry :: "bool \<Rightarrow> modifier_settings \<Rightarrow> modifier_settings option" where
  "set_use_z_symmetry v (SkinModifier x y z) = Some (SkinModifier x y v)"
| "set_use_z_symmetry v _ = None"

fun set_levels :: "int \<Rightarrow> modifier_settings \<Rightarrow> modifier_settings option" where
  "set_levels v (SubsurfModifier l r) = Some (SubsurfModifier v r)"
| "set_levels v _ = None"

fun set_render_levels :: "int \<Rightarrow> modifier_settings \<Rightarrow> modifier_settings option" where
  "set_render_levels v (SubsurfModifier l r) = Some (SubsurfModifier l v)"
| "set_render_levels v _ = None"

definition modifier_setattr ::
    "string option \<Rightarrow> (modifier_settings \<Rightarrow> modifier_settings option) \<Rightarrow> object \<Rightarrow>
     object result" where
  "modifier_setattr ref f ob =
     (case ref of
        None \<Rightarrow> Raise AttributeError
      | Some nm \<Rightarrow>
          (case modifiers_get ob nm of
             None \<Rightarrow> Raise AttributeError
           | Some md \<Rightarrow>
               (case f (settings md) of
                  None \<Rightarrow> Raise AttributeError
                | Some st \<Rightarrow>
                    Return (ob\<lparr>modifiers :=
                      map (\<lambda>m. if name m = nm then m\<lparr>settings := st\<rparr> else m)
                        (modifiers ob)\<rparr>))))"

definition bind :: "'a result \<Rightarrow> ('a \<Rightarrow> 'b result) \<Rightarrow> 'b result" where
  "bind r k = (case r of Return x \<Rightarrow> k x | Raise e \<Rightarrow> Raise e)"

definition and_then ::
    "'a result \<times> state \<Rightarrow> (state \<Rightarrow> 'b result \<times> state) \<Rightarrow> 'b result \<times> state" where
  "and_then r k = (case r of (Return _, s) \<Rightarrow> k s | (Raise e, s) \<Rightarrow> (Raise e, s))"

text \<open>
  \<^verbatim>\<open>bpy.ops.object.mode_set(mode=md)\<close> needs an active object; an object without
  editable data stays in its mode.
\<close>

definition ops_object_mode_set :: "string \<Rightarrow> state \<Rightarrow> unit result \<times> state" where
  "ops_object_mode_set md s =
     (case active_object s of
        None \<Rightarrow> (Raise poll_failed, s)
      | Some ob \<Rightarrow>
          (case data ob of
             NoData \<Rightarrow> (Return (), s)
           | MeshData _ \<Rightarrow> (Return (), s\<lparr>active_object := Some (ob\<lparr>mode := md\<rparr>)\<rparr>)))"

text \<open>\<^verbatim>\<open>bpy.ops.mesh.select_all(action=a)\<close> needs a mesh in edit mode.\<close>

definition ops_mesh_select_all :: "string \<Rightarrow> state \<Rightarrow> unit result \<times> state" where
  "ops_mesh_select_all a s =
     (case active_object s of
        None \<Rightarrow> (Raise poll_failed, s)
      | Some ob \<Rightarrow>
          (case data ob of
             NoData \<Rightarrow> (Raise poll_failed, s)
           | MeshData m \<Rightarrow>
               if mode ob \<noteq> ''EDIT'' then (Raise poll_failed, s)
               else
                 (Return (),
                  s\<lparr>active_object :=
                       Some (ob\<lparr>data :=
                         MeshData (m\<lparr>vertices := select_all_verts a (vertices m)\<rparr>)\<rparr>)\<rparr>)))"

text \<open>
  \<^verbatim>\<open>bpy.ops.object.skin_root_mark()\<close> needs a mesh in edit mode.  It makes sure the
  mesh has the skin layer, then goes through the vertices in order, keeping a set of
  visited vertices: a selected vertex not yet visited is marked as root, and the mark is
  cleared on every vertex reached from it along edges through vertices not yet visited
  (the host's \<^verbatim>\<open>skin_root_clear\<close>); all of them are then visited.

  The recursion of \<^verbatim>\<open>skin_root_clear\<close> is written as rounds of expansion to the
  neighbours, as many as the mesh has vertices, which reaches every vertex the
  recursion reaches.
\<close>

definition neighbours :: "(nat \<times> nat) list \<Rightarrow> nat \<Rightarrow> nat list" where
  "neighbours es i =
     map snd (filter (\<lambda>e. fst e = i) es) @ map fst (filter (\<lambda>e. snd e = i) es)"

fun skin_root_clear :: "nat \<Rightarrow> (nat \<times> nat) list \<Rightarrow> nat list \<Rightarrow> nat list \<Rightarrow> nat list" where
  "skin_root_clear 0 es visited reached = reached"
| "skin_root_clear (Suc k) es visited reached =
     skin_root_clear k es visited
       (remdups (reached @
          filter (\<lambda>j. j \<notin> set visited) (concat (map (neighbours es) reached))))"

definition skin_root_mark_vert ::
    "(nat \<times> nat) list \<Rightarrow> nat \<Rightarrow> nat list \<times> vert list \<Rightarrow> nat list \<times> vert list" where
  "skin_root_mark_vert es i st =
     (case st of (visited, vs) \<Rightarrow>
        if select (vs ! i) \<and> i \<notin> set visited then
          (let reached = skin_root_clear (length vs) es visited [i] in
           (visited @ reached,
            map (\<lambda>jv. if fst jv = i then (snd jv)\<lparr>use_root := True\<rparr>
                       else if fst jv \<in> set reached then (snd jv)\<lparr>use_root := False\<rparr>
                       else snd jv)
              (enumerate 0 vs)))
        else (visited, vs))"

definition skin_root_mark_verts :: "(nat \<times> nat) list \<Rightarrow> vert list \<Rightarrow> vert list" where
  "skin_root_mark_verts es vs =
     snd (fold (skin_root_mark_vert es) [0 ..< length vs] ([], vs))"

definition ops_object_skin_root_mark :: "state \<Rightarrow> unit result \<times> state" where
  "ops_object_skin_root_mark s =
     (case active_object s of
        None \<Rightarrow> (Raise poll_failed, s)
      | Some ob \<Rightarrow>
          (case data ob of
             NoData \<Rightarrow> (Raise poll_failed, s)
           | MeshData m \<Rightarrow>
               if mode ob \<noteq> ''EDIT'' then (Raise poll_failed, s)
               else
                 (let m' = ensure_skin_customdata m in
                  (Return (),
                   s\<lparr>active_object :=
                        Some (ob\<lparr>data :=
                          MeshData (m'\<lparr>vertices :=
                            skin_root_mark_verts (edges m') (vertices m')\<rparr>)\<rparr>)\<rparr>))))"

subsection \<open>The operator\<close>

text \<open>
  The class defines no \<^verbatim>\<open>poll\<close>; it inherits the one of its base class
  \<^verbatim>\<open>AddObjectHelper\<close>, which is \<^verbatim>\<open>context.scene.library is None\<close>: the operator is
  refused in a scene linked from another file, and enabled everywhere else.
\<close>

definition AddObjectHelper_poll :: "state \<Rightarrow> bool" where
  "AddObjectHelper_poll context = (scene_library context = None)"

definition MESH_OT_PrimitiveBSphereAdd_poll :: "state \<Rightarrow> bool" where
  "MESH_OT_PrimitiveBSphereAdd_poll context = AddObjectHelper_poll context"

text \<open>Step 4 of \<^verbatim>\<open>execute\<close>: the three modifiers, on \<^verbatim>\<open>obj\<close>.\<close>

definition setup_modifiers :: "object \<Rightarrow> object result" where
  "setup_modifiers obj =
     (case modifiers_new obj ''Mirror'' MIRROR of (mod_mirror, obj) \<Rightarrow>
      bind (modifier_setattr mod_mirror (set_use_axis (True, False, False)) obj) (\<lambda>obj.
      case modifiers_new obj ''Skin'' SKIN of (mod_skin, obj) \<Rightarrow>
      bind (modifier_setattr mod_skin (set_use_x_symmetry False) obj) (\<lambda>obj.
      bind (modifier_setattr mod_skin (set_use_y_symmetry False) obj) (\<lambda>obj.
      bind (modifier_setattr mod_skin (set_use_z_symmetry False) obj) (\<lambda>obj.
      case modifiers_new obj ''Subdivision'' SUBSURF of (mod_sub, obj) \<Rightarrow>
      bind (modifier_setattr mod_sub (set_levels 2) obj) (\<lambda>obj.
      modifier_setattr mod_sub (set_render_levels 2) obj))))))"

text \<open>
  \<^verbatim>\<open>execute\<close>.  \<^verbatim>\<open>obj\<close> is whatever object is active after \<^verbatim>\<open>object_data_add\<close>.
  The last statement reads \<^verbatim>\<open>context.space_data.type\<close>: without a space this raises
  \<^verbatim>\<open>AttributeError\<close>, after everything else has been done.
\<close>

definition MESH_OT_PrimitiveBSphereAdd_execute :: "state \<Rightarrow> string set result \<times> state" where
  "MESH_OT_PrimitiveBSphereAdd_execute s0 =
     (let mesh = data_meshes_new ''bSphere'';
          bm = bm_verts_new (0, 0, 0) bmesh_new;
          mesh = bm_to_mesh bm mesh;
          s1 = object_data_add s0 mesh
      in
        and_then
          (case active_object s1 of
             None \<Rightarrow> (Raise AttributeError, s1)
           | Some obj \<Rightarrow>
               (case setup_modifiers obj of
                  Raise e \<Rightarrow> (Raise e, s1)
                | Return obj' \<Rightarrow> (Return (), s1\<lparr>active_object := Some obj'\<rparr>)))
          (\<lambda>s2. and_then (ops_object_mode_set ''EDIT'' s2)
          (\<lambda>s3. and_then (ops_mesh_select_all ''SELECT'' s3)
          (\<lambda>s4. and_then (ops_object_skin_root_mark s4)
          (\<lambda>s5. case space_data s5 of
                  None \<Rightarrow> (Raise AttributeError, s5)
                | Some sp \<Rightarrow>
                    (Return {''FINISHED''},
                     if space_type sp = ''VIEW_3D''
                     then s5\<lparr>space_data := Some (sp\<lparr>show_xray := True\<rparr>)\<rparr> else s5))))))"

section \<open>The Contextual Panel: \<^verbatim>\<open>VIEW3D_PT_BSpheresPanel\<close>\<close>

text \<open>
  What \<^verbatim>\<open>draw\<close> puts into the layout, in the order of the calls: containers, labels,
  operator buttons (identifier, text, operator properties set on the button) and
  property controls (the modifier bound to, the property, the index, the text).  Icons
  and scaling are left out.
\<close>

datatype ui_item =
    UI_column
  | UI_row
  | UI_box
  | UI_separator
  | UI_label string
  | UI_operator string string "(string \<times> string) list"
  | UI_prop string string "nat option" string

definition creation_section :: "ui_item list" where
  "creation_section =
     [UI_column, UI_label ''Create Base:'',
      UI_operator ''mesh.primitive_bsphere_add'' ''Create bSphere'' [],
      UI_separator]"

definition has_bsphere_setup :: "object \<Rightarrow> bool" where
  "has_bsphere_setup obj =
     (modifiers_get obj ''Skin'' \<noteq> None \<or> modifiers_get obj ''Mirror'' \<noteq> None)"

definition mirror_controls :: "object \<Rightarrow> ui_item list" where
  "mirror_controls obj =
     (case modifiers_get obj ''Mirror'' of
        None \<Rightarrow> []
      | Some mod_mirror \<Rightarrow>
          [UI_row, UI_label ''Mirror:'',
           UI_prop (name mod_mirror) ''use_axis'' (Some 0) ''X'',
           UI_prop (name mod_mirror) ''use_axis'' (Some 1) ''Y'',
           UI_prop (name mod_mirror) ''use_axis'' (Some 2) ''Z''])"

definition subsurf_controls :: "object \<Rightarrow> ui_item list" where
  "subsurf_controls obj =
     (case modifiers_get obj ''Subdivision'' of
        None \<Rightarrow> []
      | Some mod_sub \<Rightarrow>
          [UI_row, UI_label ''Subd Level:'', UI_prop (name mod_sub) ''levels'' None []])"

definition skin_controls :: "object \<Rightarrow> ui_item list" where
  "skin_controls obj =
     (case modifiers_get obj ''Skin'' of
        None \<Rightarrow> []
      | Some mod_skin \<Rightarrow>
          [UI_separator, UI_column, UI_label ''Skin Data (Edit Mode):'', UI_row,
           UI_operator ''object.skin_loose_mark_clear'' ''Mark Loose'' [(''action'', ''MARK'')],
           UI_operator ''object.skin_loose_mark_clear'' ''Clear Loose'' [(''action'', ''CLEAR'')],
           UI_operator ''object.skin_root_mark'' ''Mark Root'' []])"

definition apply_section :: "ui_item list" where
  "apply_section =
     [UI_separator, UI_column, UI_label ''Finalize:'',
      UI_operator ''tcg.apply_bsphere_modifiers'' ''Voxel Remesh & Apply'' []]"

text \<open>The bullet that starts each line of the shortcuts is left out.\<close>

definition info_text :: "ui_item list" where
  "info_text =
     [UI_box, UI_column, UI_label ''Shortcuts:'', UI_label ''Extrude: E'',
      UI_label ''Scale Radius: Ctrl + A'', UI_label ''Split Segment: Ctrl + R'']"

text \<open>
  \<^verbatim>\<open>draw\<close> receives the context and a fresh layout and returns both: the body reads
  the context and writes only to the layout.
\<close>

definition draw :: "state \<Rightarrow> state \<times> ui_item list" where
  "draw context =
     (let obj = active_object context;
          layout = creation_section
      in
        case obj of
          None \<Rightarrow> (context, layout)
        | Some ob \<Rightarrow>
            if object_type ob \<noteq> ''MESH'' then (context, layout)
            else if \<not> has_bsphere_setup ob then (context, layout)
            else
              (context,
               layout @ [UI_box, UI_label ''Modifiers''] @ mirror_controls ob @
               subsurf_controls ob @ skin_controls ob @ apply_section @ info_text))"

section \<open>Observations used to state the properties\<close>

definition stage_present :: "object \<Rightarrow> string \<Rightarrow> bool" where
  "stage_present ob nm = (modifiers_get ob nm \<noteq> None)"

fun bake_of :: "host_call \<Rightarrow> (string \<times> bool) list" where
  "bake_of (ModifierApply nm ob ok) = [(nm, ok)]"
| "bake_of (VoxelRemesh ob ok) = []"

definition bakes :: "host_call list \<Rightarrow> (string \<times> bool) list" where
  "bakes cs = concat (map bake_of cs)"

definition baked :: "host_call list \<Rightarrow> string list" where
  "baked cs = map fst (filter snd (bakes cs))"

definition not_baked :: "host_call list \<Rightarrow> string list" where
  "not_baked cs = map fst (filter (\<lambda>b. \<not> snd b) (bakes cs))"

definition new_calls :: "state \<Rightarrow> state \<Rightarrow> host_call list" where
  "new_calls s s' = drop (length (calls s)) (calls s')"

definition new_reports :: "state \<Rightarrow> state \<Rightarrow> (string \<times> string) list" where
  "new_reports s s' = drop (length (reports s)) (reports s')"

fun remesh_of :: "host_call \<Rightarrow> bool list" where
  "remesh_of (ModifierApply nm ob ok) = []"
| "remesh_of (VoxelRemesh ob ok) = [ok]"

definition remeshes :: "host_call list \<Rightarrow> bool list" where
  "remeshes cs = concat (map remesh_of cs)"

fun call_object :: "host_call \<Rightarrow> object option" where
  "call_object (ModifierApply nm ob ok) = ob"
| "call_object (VoxelRemesh ob ok) = ob"

definition mesh_voxel_size :: "object option \<Rightarrow> real option" where
  "mesh_voxel_size ob =
     (case ob of
        None \<Rightarrow> None
      | Some ob \<Rightarrow>
          (case data ob of
             NoData \<Rightarrow> None
           | MeshData m \<Rightarrow> Some (remesh_voxel_size m)))"

definition warning :: "string \<Rightarrow> string \<times> string" where
  "warning nm = (''WARNING'', ''Could not apply modifier: '' @ nm)"

definition remove_all :: "string list \<Rightarrow> modifier list \<Rightarrow> modifier list" where
  "remove_all ns ms = foldl (\<lambda>ms n. remove_modifier n ms) ms ns"

text \<open>The host refuses to bake.\<close>

definition refused :: "host \<Rightarrow> object \<Rightarrow> string \<Rightarrow> bool" where
  "refused h ob n = (case modifier_apply_result h ob n of Inl _ \<Rightarrow> True | Inr _ \<Rightarrow> False)"

text \<open>The object after a successful bake of the modifier \<open>n\<close> into the geometry \<open>g\<close>.\<close>

definition baked_object :: "object \<Rightarrow> string \<Rightarrow> geometry \<Rightarrow> object" where
  "baked_object ob n g =
     ob\<lparr>data := (case data ob of MeshData m \<Rightarrow> MeshData (set_geometry m g) | NoData \<Rightarrow> NoData),
        modifiers := remove_modifier n (modifiers ob)\<rparr>"

text \<open>
  A log of bakes that starts at the object \<open>ob\<close> and ends at the object \<open>ob'\<close>: each
  call is made on the object the calls before it left, and is logged as the host
  answers it; a bake the host accepts leaves the object with the geometry the host
  returned and without the modifier.
\<close>

fun bake_chain :: "host \<Rightarrow> object \<Rightarrow> host_call list \<Rightarrow> object \<Rightarrow> bool" where
  "bake_chain h ob [] ob' = (ob' = ob)"
| "bake_chain h ob (ModifierApply n x ok # cs) ob' =
     (x = Some ob \<and>
      (case modifier_apply_result h ob n of
         Inl msg \<Rightarrow> \<not> ok \<and> bake_chain h ob cs ob'
       | Inr g \<Rightarrow> ok \<and> bake_chain h (baked_object ob n g) cs ob'))"
| "bake_chain h ob (VoxelRemesh x ok # cs) ob' = False"

text \<open>
  What a run of the loop over the names \<open>ns\<close> on the object \<open>ob\<close> leaves: the object
  \<open>ob'\<close>, the host calls \<open>cs\<close> and the messages \<open>rs\<close>.
\<close>

definition loop_post ::
    "host \<Rightarrow> object \<Rightarrow> string list \<Rightarrow> object \<Rightarrow> host_call list \<Rightarrow>
     (string \<times> string) list \<Rightarrow> bool" where
  "loop_post h ob ns ob' cs rs =
     (remeshes cs = [] \<and>
      map fst (bakes cs) = filter (stage_present ob) ns \<and>
      rs = map warning (not_baked cs) \<and>
      modifiers ob' = remove_all (baked cs) (modifiers ob) \<and>
      mode ob' = mode ob \<and>
      mesh_voxel_size (Some ob') = mesh_voxel_size (Some ob) \<and>
      map (\<lambda>c. mesh_voxel_size (call_object c)) cs =
        replicate (length cs) (mesh_voxel_size (Some ob)) \<and>
      list_all (\<lambda>c. call_object c \<noteq> None) cs \<and>
      bake_chain h ob cs ob')"

text \<open>The state after the first statement of the Finalizer's \<^verbatim>\<open>execute\<close>.\<close>

definition xray_off :: "state \<Rightarrow> state" where
  "xray_off s =
     (case space_data s of
        None \<Rightarrow> s
      | Some sp \<Rightarrow>
          if space_type sp = ''VIEW_3D'' then s\<lparr>space_data := Some (sp\<lparr>show_xray := False\<rparr>)\<rparr>
          else s)"

section \<open>Example inputs\<close>

definition example_mesh :: mesh where
  "example_mesh =
     \<lparr>vertices = [\<lparr>co = (0, 0, 0), select = False, use_root = True, use_loose = False\<rparr>,
                  \<lparr>co = (0, 0, 1), select = False, use_root = False, use_loose = False\<rparr>],
      edges = [(0, 1)], polygons = [], remesh_voxel_size = 0.1, has_skin_vertices = True\<rparr>"

definition example_object :: object where
  "example_object =
     \<lparr>data = MeshData example_mesh,
      modifiers =
        [\<lparr>name = ''Mirror'', settings = MirrorModifier (True, False, False)\<rparr>,
         \<lparr>name = ''Skin'', settings = SkinModifier False False False\<rparr>,
         \<lparr>name = ''Subdivision'', settings = SubsurfModifier 2 2\<rparr>],
      mode = ''OBJECT''\<rparr>"

definition state_of :: "object \<Rightarrow> state" where
  "state_of ob =
     \<lparr>active_object = Some ob,
      space_data = Some \<lparr>space_type = ''VIEW_3D'', show_xray = True\<rparr>,
      scene_library = None, use_enter_edit_mode = False, reports = [], calls = []\<rparr>"

text \<open>
  The same context without a space: the operator is called from a script, in background
  mode or from a timer, where \<^verbatim>\<open>context.space_data\<close> is \<^verbatim>\<open>None\<close>.
\<close>

definition script_state_of :: "object \<Rightarrow> state" where
  "script_state_of ob = (state_of ob)\<lparr>space_data := None\<rparr>"

text \<open>A host that bakes and remeshes everything, into one triangle.\<close>

definition triangle :: geometry where
  "triangle =
     ([\<lparr>co = (0, 0, 0), select = False, use_root = False, use_loose = False\<rparr>,
       \<lparr>co = (1, 0, 0), select = False, use_root = False, use_loose = False\<rparr>,
       \<lparr>co = (0, 1, 0), select = False, use_root = False, use_loose = False\<rparr>],
      [(0, 1), (1, 2), (2, 0)], [[0, 1, 2]])"

definition host_ok :: host where
  "host_ok =
     \<lparr>modifier_apply_result = (\<lambda>ob nm. Inr triangle),
      voxel_remesh_result = (\<lambda>ob. Inr triangle)\<rparr>"

text \<open>A host that refuses to bake the Skin modifier.\<close>

definition host_skin_fails :: host where
  "host_skin_fails =
     \<lparr>modifier_apply_result =
        (\<lambda>ob nm. if nm = ''Skin'' then Inl ''no valid root vertex'' else Inr triangle),
      voxel_remesh_result = (\<lambda>ob. Inr triangle)\<rparr>"

text \<open>A host that refuses everything.\<close>

definition host_fails :: host where
  "host_fails =
     \<lparr>modifier_apply_result = (\<lambda>ob nm. Inl ''cannot apply''),
      voxel_remesh_result = (\<lambda>ob. Inl ''cannot remesh'')\<rparr>"

text \<open>A host that bakes and then refuses to remesh.\<close>

definition host_remesh_fails :: host where
  "host_remesh_fails =
     \<lparr>modifier_apply_result = (\<lambda>ob nm. Inr triangle),
      voxel_remesh_result = (\<lambda>ob. Inl ''cannot remesh'')\<rparr>"

text \<open>An empty: an object without mesh data and without modifiers, in object mode.\<close>

definition empty_object :: object where
  "empty_object = \<lparr>data = NoData, modifiers = [], mode = ''OBJECT''\<rparr>"

text \<open>A mesh object whose only modifier is the Subdivision one.\<close>

definition subdivision_only_object :: object where
  "subdivision_only_object =
     \<lparr>data = MeshData example_mesh,
      modifiers = [\<lparr>name = ''Subdivision'', settings = SubsurfModifier 2 2\<rparr>],
      mode = ''OBJECT''\<rparr>"

text \<open>The example object in edit mode.\<close>

definition edit_object :: object where
  "edit_object = example_object\<lparr>mode := ''EDIT''\<rparr>"

section \<open>Observations of the panel\<close>

text \<open>
  The controls \<^verbatim>\<open>draw\<close> renders for a stage: the axis toggles of the Mirror modifier,
  the level of the Subdivision modifier, the marking buttons of the Skin modifier, and
  the button of the Finalizer.
\<close>

definition is_mirror_control :: "ui_item \<Rightarrow> bool" where
  "is_mirror_control i = (case i of UI_prop d p ix t \<Rightarrow> p = ''use_axis'' | _ \<Rightarrow> False)"

definition is_subsurf_control :: "ui_item \<Rightarrow> bool" where
  "is_subsurf_control i = (case i of UI_prop d p ix t \<Rightarrow> p = ''levels'' | _ \<Rightarrow> False)"

definition is_skin_control :: "ui_item \<Rightarrow> bool" where
  "is_skin_control i =
     (case i of
        UI_operator idn t ps \<Rightarrow>
          idn = ''object.skin_loose_mark_clear'' \<or> idn = ''object.skin_root_mark''
      | _ \<Rightarrow> False)"

definition is_finalize_action :: "ui_item \<Rightarrow> bool" where
  "is_finalize_action i =
     (case i of UI_operator idn t ps \<Rightarrow> idn = ''tcg.apply_bsphere_modifiers'' | _ \<Rightarrow> False)"

definition mesh_geometry :: "object option \<Rightarrow> geometry option" where
  "mesh_geometry ob =
     (case ob of
        None \<Rightarrow> None
      | Some ob \<Rightarrow>
          (case data ob of
             NoData \<Rightarrow> None
           | MeshData m \<Rightarrow> Some (vertices m, edges m, polygons m)))"



section \<open>Properties of the Finalizer\<close>

lemma find_name: "find (\<lambda>m. name m = n) ms = Some md \<Longrightarrow> name md = n"
  by (induction ms) (auto split: if_splits)

lemma modifiers_get_name: "modifiers_get ob n = Some md \<Longrightarrow> name md = n"
  unfolding modifiers_get_def by (rule find_name)

lemma apply_one_absent:
  "active_object s = Some ob \<Longrightarrow> modifiers_get ob n = None \<Longrightarrow> apply_one h n s = (Return (), s)"
  by (simp add: apply_one_def)

lemma apply_one_ok:
  assumes "active_object s = Some ob" "modifiers_get ob n = Some md"
    "modifier_apply_result h ob n = Inr g"
  shows "apply_one h n s =
    (Return (),
     s\<lparr>active_object := Some (baked_object ob n g),
       calls := calls s @ [ModifierApply n (Some ob) True]\<rparr>)"
  using assms modifiers_get_name[OF assms(2)]
  by (simp add: apply_one_def ops_object_modifier_apply_def baked_object_def)

lemma apply_one_fail:
  assumes "active_object s = Some ob" "modifiers_get ob n = Some md" "refused h ob n"
  shows "apply_one h n s =
    (Return (),
     s\<lparr>calls := calls s @ [ModifierApply n (Some ob) False],
       reports := reports s @ [warning n]\<rparr>)"
  using assms modifiers_get_name[OF assms(2)]
  by (auto simp add: apply_one_def ops_object_modifier_apply_def report_def poll_failed_def
      refused_def warning_def split: sum.splits)

lemma find_remove_other:
  "k \<noteq> n \<Longrightarrow> find (\<lambda>m. name m = k) (remove_modifier n ms) = find (\<lambda>m. name m = k) ms"
  by (induction ms) auto

lemma find_remove_all_other:
  "k \<notin> set ns \<Longrightarrow> find (\<lambda>m. name m = k) (remove_all ns ms) = find (\<lambda>m. name m = k) ms"
  unfolding remove_all_def
  by (induction ns arbitrary: ms) (auto simp: find_remove_other)

lemma apply_one_post:
  assumes s: "active_object s = Some ob"
  shows "\<exists>ob' cs rs.
     apply_one h n s =
       (Return (), s\<lparr>active_object := Some ob', calls := calls s @ cs, reports := reports s @ rs\<rparr>) \<and>
     loop_post h ob [n] ob' cs rs"
proof (cases "modifiers_get ob n")
  case None
  have "s\<lparr>active_object := Some ob, calls := calls s @ [], reports := reports s @ []\<rparr> = s"
    using s by simp
  moreover have "loop_post h ob [n] ob [] []"
    using None
    by (simp add: loop_post_def bakes_def baked_def not_baked_def remeshes_def
        stage_present_def remove_all_def)
  ultimately show ?thesis
    using apply_one_absent[OF s None, of h] by metis
next
  case (Some md)
  show ?thesis
  proof (cases "refused h ob n")
    case True
    have "loop_post h ob [n] ob [ModifierApply n (Some ob) False] [warning n]"
      using Some True
      by (simp add: loop_post_def bakes_def baked_def not_baked_def remeshes_def
          stage_present_def remove_all_def refused_def split: sum.splits)
    moreover have "apply_one h n s =
       (Return (), s\<lparr>active_object := Some ob, calls := calls s @ [ModifierApply n (Some ob) False],
          reports := reports s @ [warning n]\<rparr>)"
      using apply_one_fail[OF s Some True] s by simp
    ultimately show ?thesis by blast
  next
    case False
    then obtain g where g: "modifier_apply_result h ob n = Inr g"
      by (auto simp: refused_def split: sum.splits)
    have "loop_post h ob [n] (baked_object ob n g) [ModifierApply n (Some ob) True] []"
      using Some g
      by (simp add: loop_post_def bakes_def baked_def not_baked_def remeshes_def
          stage_present_def remove_all_def mesh_voxel_size_def set_geometry_def baked_object_def
          split: prod.splits object_data.splits)
    moreover have "apply_one h n s =
       (Return (), s\<lparr>active_object := Some (baked_object ob n g),
          calls := calls s @ [ModifierApply n (Some ob) True], reports := reports s @ []\<rparr>)"
      using apply_one_ok[OF s Some g] by simp
    ultimately show ?thesis by blast
  qed
qed

lemma bakes_append: "bakes (cs1 @ cs2) = bakes cs1 @ bakes cs2"
  by (simp add: bakes_def)

lemma baked_append: "baked (cs1 @ cs2) = baked cs1 @ baked cs2"
  by (simp add: baked_def bakes_append)

lemma not_baked_append: "not_baked (cs1 @ cs2) = not_baked cs1 @ not_baked cs2"
  by (simp add: not_baked_def bakes_append)

lemma remeshes_append: "remeshes (cs1 @ cs2) = remeshes cs1 @ remeshes cs2"
  by (simp add: remeshes_def)

lemma baked_subset: "set (baked cs) \<subseteq> set (map fst (bakes cs))"
  by (auto simp: baked_def)

lemma bake_chain_append:
  "bake_chain h ob cs1 ob1 \<Longrightarrow> bake_chain h ob1 cs2 ob2 \<Longrightarrow> bake_chain h ob (cs1 @ cs2) ob2"
proof (induction cs1 arbitrary: ob)
  case Nil
  then show ?case by simp
next
  case (Cons c cs1)
  then show ?case by (cases c) (auto split: sum.splits)
qed

lemma loop_post_Cons:
  assumes 1: "loop_post h ob [n] ob1 cs1 rs1" and 2: "loop_post h ob1 ns ob2 cs2 rs2"
    and n: "n \<notin> set ns"
  shows "loop_post h ob (n # ns) ob2 (cs1 @ cs2) (rs1 @ rs2)"
proof -
  have b1: "set (baked cs1) \<subseteq> {n}"
    using baked_subset[of cs1] 1 by (auto simp: loop_post_def split: if_splits)
  have m1: "modifiers ob1 = remove_all (baked cs1) (modifiers ob)"
    using 1 by (simp add: loop_post_def)
  have pres: "stage_present ob1 k = stage_present ob k" if "k \<in> set ns" for k
  proof -
    from that n b1 have "k \<notin> set (baked cs1)" by auto
    then show ?thesis
      unfolding stage_present_def modifiers_get_def m1 by (simp add: find_remove_all_other)
  qed
  have f: "filter (stage_present ob1) ns = filter (stage_present ob) ns"
    using pres by (simp cong: filter_cong)
  have "map fst (bakes (cs1 @ cs2)) = filter (stage_present ob) (n # ns)"
    using 1 2 f by (simp add: loop_post_def bakes_append)
  moreover have "modifiers ob2 = remove_all (baked (cs1 @ cs2)) (modifiers ob)"
    using 2 m1 by (simp add: loop_post_def baked_append remove_all_def)
  moreover have "map (\<lambda>c. mesh_voxel_size (call_object c)) (cs1 @ cs2) =
      replicate (length (cs1 @ cs2)) (mesh_voxel_size (Some ob))"
    using 1 2 by (simp add: loop_post_def replicate_add)
  moreover have "bake_chain h ob (cs1 @ cs2) ob2"
  proof (rule bake_chain_append)
    show "bake_chain h ob cs1 ob1" using 1 by (simp add: loop_post_def)
    show "bake_chain h ob1 cs2 ob2" using 2 by (simp add: loop_post_def)
  qed
  ultimately show ?thesis
    using 1 2 by (simp add: loop_post_def not_baked_append remeshes_append)
qed

lemma apply_loop_post:
  assumes "active_object s = Some ob" "distinct ns"
  shows "\<exists>ob' cs rs.
     apply_loop h ns s =
       (Return (), s\<lparr>active_object := Some ob', calls := calls s @ cs, reports := reports s @ rs\<rparr>) \<and>
     loop_post h ob ns ob' cs rs"
  using assms
proof (induction ns arbitrary: s ob)
  case Nil
  have "s\<lparr>active_object := Some ob, calls := calls s @ [], reports := reports s @ []\<rparr> = s"
    using Nil by simp
  moreover have "loop_post h ob [] ob [] []"
    by (simp add: loop_post_def bakes_def baked_def not_baked_def remeshes_def remove_all_def)
  ultimately show ?case by (metis apply_loop.simps(1))
next
  case (Cons n ns)
  from apply_one_post[OF Cons.prems(1), of h n]
  obtain ob1 cs1 rs1 where
    a1: "apply_one h n s =
       (Return (), s\<lparr>active_object := Some ob1, calls := calls s @ cs1, reports := reports s @ rs1\<rparr>)"
    and p1: "loop_post h ob [n] ob1 cs1 rs1"
    by blast
  let ?s1 = "s\<lparr>active_object := Some ob1, calls := calls s @ cs1, reports := reports s @ rs1\<rparr>"
  have "active_object ?s1 = Some ob1" by simp
  moreover have "distinct ns" using Cons.prems(2) by simp
  ultimately obtain ob2 cs2 rs2 where
    a2: "apply_loop h ns ?s1 =
       (Return (), ?s1\<lparr>active_object := Some ob2, calls := calls ?s1 @ cs2, reports := reports ?s1 @ rs2\<rparr>)"
    and p2: "loop_post h ob1 ns ob2 cs2 rs2"
    using Cons.IH[of ?s1 ob1] by blast
  have "n \<notin> set ns" using Cons.prems(2) by simp
  from loop_post_Cons[OF p1 p2 this]
  have "loop_post h ob (n # ns) ob2 (cs1 @ cs2) (rs1 @ rs2)" .
  moreover have "apply_loop h (n # ns) s =
     (Return (), s\<lparr>active_object := Some ob2, calls := calls s @ (cs1 @ cs2),
        reports := reports s @ (rs1 @ rs2)\<rparr>)"
    using a1 a2 by simp
  ultimately show ?case by blast
qed


lemma distinct_to_apply: "distinct modifiers_to_apply"
  by (simp add: modifiers_to_apply_def)

lemma execute_no_space:
  "space_data s = None \<Longrightarrow>
   OBJECT_OT_ApplyBSphereModifiers_execute h v s = (Raise AttributeError, s)"
  by (simp add: OBJECT_OT_ApplyBSphereModifiers_execute_def)

lemma space_of_calls:
  assumes "new_calls s (snd (OBJECT_OT_ApplyBSphereModifiers_execute h v s)) \<noteq> []"
  shows "\<exists>sp. space_data s = Some sp"
proof (cases "space_data s")
  case None
  from execute_no_space[OF None, of h v] assms show ?thesis by (simp add: new_calls_def)
next
  case (Some sp)
  then show ?thesis by simp
qed

lemma execute_post:
  assumes s: "active_object s = Some ob" and sp: "space_data s = Some sp"
  shows "\<exists>ob2 cs rs s2. loop_post h ob modifiers_to_apply ob2 cs rs \<and>
     s2 = (xray_off s)\<lparr>active_object := Some ob2, calls := calls s @ cs, reports := reports s @ rs\<rparr> \<and>
     apply_loop h modifiers_to_apply (xray_off s) = (Return (), s2) \<and>
     OBJECT_OT_ApplyBSphereModifiers_execute h v s =
       (case data ob2 of
          NoData \<Rightarrow> (Raise AttributeError, s2)
        | MeshData m2 \<Rightarrow>
            (case voxel_remesh_result h (ob2\<lparr>data := MeshData (m2\<lparr>remesh_voxel_size := v\<rparr>)\<rparr>) of
               Inl msg \<Rightarrow>
                 (Return {''FINISHED''},
                  s2\<lparr>active_object := Some (ob2\<lparr>data := MeshData (m2\<lparr>remesh_voxel_size := v\<rparr>)\<rparr>),
                     calls := calls s @ cs @
                       [VoxelRemesh (Some (ob2\<lparr>data := MeshData (m2\<lparr>remesh_voxel_size := v\<rparr>)\<rparr>)) False],
                     reports := reports s @ rs @ [(''ERROR'', ''Remesh failed: '' @ msg)]\<rparr>)
             | Inr g \<Rightarrow>
                 (Return {''FINISHED''},
                  s2\<lparr>active_object :=
                       Some (ob2\<lparr>data := MeshData (set_geometry (m2\<lparr>remesh_voxel_size := v\<rparr>) g)\<rparr>),
                     calls := calls s @ cs @
                       [VoxelRemesh (Some (ob2\<lparr>data := MeshData (m2\<lparr>remesh_voxel_size := v\<rparr>)\<rparr>)) True],
                     reports := reports s @ rs @ [(''INFO'', ''bSphere mesh applied and remeshed.'')]\<rparr>)))"
proof -
  have x: "active_object (xray_off s) = Some ob" using s sp by (simp add: xray_off_def)
  from apply_loop_post[OF x distinct_to_apply, of h]
  obtain ob2 cs rs where
    l: "apply_loop h modifiers_to_apply (xray_off s) =
       (Return (), (xray_off s)\<lparr>active_object := Some ob2, calls := calls (xray_off s) @ cs,
          reports := reports (xray_off s) @ rs\<rparr>)"
    and p: "loop_post h ob modifiers_to_apply ob2 cs rs"
    by blast
  have c: "calls (xray_off s) = calls s" "reports (xray_off s) = reports s"
    using sp by (simp_all add: xray_off_def)
  let ?s2 = "(xray_off s)\<lparr>active_object := Some ob2, calls := calls s @ cs, reports := reports s @ rs\<rparr>"
  have l': "apply_loop h modifiers_to_apply (xray_off s) = (Return (), ?s2)"
    using l c by simp
  have e: "OBJECT_OT_ApplyBSphereModifiers_execute h v s =
       (case data ob2 of
          NoData \<Rightarrow> (Raise AttributeError, ?s2)
        | MeshData m2 \<Rightarrow>
            (case voxel_remesh_result h (ob2\<lparr>data := MeshData (m2\<lparr>remesh_voxel_size := v\<rparr>)\<rparr>) of
               Inl msg \<Rightarrow>
                 (Return {''FINISHED''},
                  ?s2\<lparr>active_object := Some (ob2\<lparr>data := MeshData (m2\<lparr>remesh_voxel_size := v\<rparr>)\<rparr>),
                     calls := calls s @ cs @
                       [VoxelRemesh (Some (ob2\<lparr>data := MeshData (m2\<lparr>remesh_voxel_size := v\<rparr>)\<rparr>)) False],
                     reports := reports s @ rs @ [(''ERROR'', ''Remesh failed: '' @ msg)]\<rparr>)
             | Inr g \<Rightarrow>
                 (Return {''FINISHED''},
                  ?s2\<lparr>active_object :=
                       Some (ob2\<lparr>data := MeshData (set_geometry (m2\<lparr>remesh_voxel_size := v\<rparr>) g)\<rparr>),
                     calls := calls s @ cs @
                       [VoxelRemesh (Some (ob2\<lparr>data := MeshData (m2\<lparr>remesh_voxel_size := v\<rparr>)\<rparr>)) True],
                     reports := reports s @ rs @ [(''INFO'', ''bSphere mesh applied and remeshed.'')]\<rparr>)))"
  proof -
    have x1: "(if space_type sp = ''VIEW_3D''
               then s\<lparr>space_data := Some (sp\<lparr>show_xray := False\<rparr>)\<rparr> else s) = xray_off s"
      using sp by (simp add: xray_off_def)
    show ?thesis
      unfolding OBJECT_OT_ApplyBSphereModifiers_execute_def Let_def
      using sp
      by (simp add: x1 l' ops_object_voxel_remesh_def report_def
          split: object_data.splits sum.splits)
  qed
  show ?thesis using p l' e by blast
qed


lemma remove_modifier_filter:
  "distinct (map name ms) \<Longrightarrow> remove_modifier n ms = filter (\<lambda>m. name m \<noteq> n) ms"
proof (induction ms)
  case Nil
  then show ?case by simp
next
  case (Cons m ms)
  show ?case
  proof (cases "name m = n")
    case True
    have "name m \<notin> name ` set ms" using Cons.prems by simp
    with True have "\<forall>x\<in>set ms. name x \<noteq> n" by (metis imageI)
    then have "filter (\<lambda>m. name m \<noteq> n) ms = ms" by (simp add: filter_id_conv)
    with True show ?thesis by simp
  next
    case False
    with Cons show ?thesis by simp
  qed
qed

lemma remove_all_filter:
  "distinct (map name ms) \<Longrightarrow> remove_all ns ms = filter (\<lambda>m. name m \<notin> set ns) ms"
proof (induction ns arbitrary: ms)
  case Nil
  then show ?case by (simp add: remove_all_def)
next
  case (Cons n ns)
  have "remove_all (n # ns) ms = remove_all ns (remove_modifier n ms)"
    by (simp add: remove_all_def)
  also have "\<dots> = remove_all ns (filter (\<lambda>m. name m \<noteq> n) ms)"
    using Cons.prems by (simp add: remove_modifier_filter)
  also have "\<dots> = filter (\<lambda>m. name m \<notin> set ns) (filter (\<lambda>m. name m \<noteq> n) ms)"
    using Cons.prems by (intro Cons.IH) (simp add: distinct_map_filter)
  also have "\<dots> = filter (\<lambda>m. name m \<notin> set (n # ns)) ms"
    by (auto intro: filter_cong)
  finally show ?case .
qed

lemma warnings_only: "filter (\<lambda>r. fst r = ''WARNING'') (map warning ns) = map warning ns"
  by (induction ns) (simp_all add: warning_def)

text \<open>
  In a context with a space, a run of the Finalizer on an active object (whose stack has
  unique names, as the host keeps them) asks the host to bake exactly the names of
  \<^verbatim>\<open>"Mirror", "Skin", "Subdivision"\<close> that are present on the object, in that order and
  whatever the outcome of the earlier bakes: an absent name is skipped, a failed bake
  does not stop the later ones.  The warnings reported are exactly one
  \<^verbatim>\<open>Could not apply modifier\<close> message for each failed bake, in order, and the stack
  left is the original stack without the modifiers whose bake succeeded.
\<close>
lemma finalizer_in_space_bakes_in_order_past_failures:
  assumes "active_object s = Some ob" and "distinct (map name (modifiers ob))"
    and sp: "space_data s = Some sp"
  shows "map fst (bakes (new_calls s (snd (OBJECT_OT_ApplyBSphereModifiers_execute h v s)))) =
           filter (stage_present ob) [''Mirror'', ''Skin'', ''Subdivision''] \<and>
         filter (\<lambda>r. fst r = ''WARNING'')
             (new_reports s (snd (OBJECT_OT_ApplyBSphereModifiers_execute h v s))) =
           map warning (not_baked (new_calls s (snd (OBJECT_OT_ApplyBSphereModifiers_execute h v s)))) \<and>
         (\<exists>ob'. active_object (snd (OBJECT_OT_ApplyBSphereModifiers_execute h v s)) = Some ob' \<and>
            modifiers ob' =
              filter (\<lambda>m. name m \<notin>
                  set (baked (new_calls s (snd (OBJECT_OT_ApplyBSphereModifiers_execute h v s)))))
                (modifiers ob))"
proof -
  from execute_post[OF assms(1) sp, of h v]
  obtain ob2 cs rs s2 where p: "loop_post h ob modifiers_to_apply ob2 cs rs"
    and s2: "s2 = (xray_off s)\<lparr>active_object := Some ob2, calls := calls s @ cs,
        reports := reports s @ rs\<rparr>"
    and e: "OBJECT_OT_ApplyBSphereModifiers_execute h v s =
       (case data ob2 of
          NoData \<Rightarrow> (Raise AttributeError, s2)
        | MeshData m2 \<Rightarrow>
            (case voxel_remesh_result h (ob2\<lparr>data := MeshData (m2\<lparr>remesh_voxel_size := v\<rparr>)\<rparr>) of
               Inl msg \<Rightarrow>
                 (Return {''FINISHED''},
                  s2\<lparr>active_object := Some (ob2\<lparr>data := MeshData (m2\<lparr>remesh_voxel_size := v\<rparr>)\<rparr>),
                     calls := calls s @ cs @
                       [VoxelRemesh (Some (ob2\<lparr>data := MeshData (m2\<lparr>remesh_voxel_size := v\<rparr>)\<rparr>)) False],
                     reports := reports s @ rs @ [(''ERROR'', ''Remesh failed: '' @ msg)]\<rparr>)
             | Inr g \<Rightarrow>
                 (Return {''FINISHED''},
                  s2\<lparr>active_object :=
                       Some (ob2\<lparr>data := MeshData (set_geometry (m2\<lparr>remesh_voxel_size := v\<rparr>) g)\<rparr>),
                     calls := calls s @ cs @
                       [VoxelRemesh (Some (ob2\<lparr>data := MeshData (m2\<lparr>remesh_voxel_size := v\<rparr>)\<rparr>)) True],
                     reports := reports s @ rs @ [(''INFO'', ''bSphere mesh applied and remeshed.'')]\<rparr>)))"
    by (elim exE conjE)
  let ?s' = "snd (OBJECT_OT_ApplyBSphereModifiers_execute h v s)"
  have b: "bakes (new_calls s ?s') = bakes cs"
    unfolding e s2 by (simp add: new_calls_def bakes_def split: object_data.splits sum.splits)
  have r: "filter (\<lambda>r. fst r = ''WARNING'') (new_reports s ?s') = rs"
    unfolding e s2 using p
    by (simp add: new_reports_def loop_post_def warnings_only split: object_data.splits sum.splits)
  have m: "\<exists>ob'. active_object ?s' = Some ob' \<and> modifiers ob' = modifiers ob2"
    unfolding e s2 by (simp split: object_data.splits sum.splits)
  have m2: "modifiers ob2 = filter (\<lambda>m. name m \<notin> set (baked cs)) (modifiers ob)"
    using p remove_all_filter[OF assms(2)] by (simp add: loop_post_def)
  have bk: "baked (new_calls s ?s') = baked cs" "not_baked (new_calls s ?s') = not_baked cs"
    using b by (simp_all add: baked_def not_baked_def)
  show ?thesis
    using p b r m m2 bk by (simp add: loop_post_def modifiers_to_apply_def)
qed


lemma loop_keeps_mesh:
  assumes "loop_post h ob ns ob2 cs rs" "data ob = MeshData m"
  shows "\<exists>m2. data ob2 = MeshData m2 \<and> remesh_voxel_size m2 = remesh_voxel_size m"
  using assms by (auto simp: loop_post_def mesh_voxel_size_def split: object_data.splits)

lemma set_geometry_voxel: "remesh_voxel_size (set_geometry m g) = remesh_voxel_size m"
  by (simp add: set_geometry_def split: prod.splits)

text \<open>
  In a context with a space, a run of the Finalizer on a mesh object returns
  \<^verbatim>\<open>{'FINISHED'}\<close>, whatever the host does.
\<close>
lemma finalizer_finishes_on_mesh:
  assumes "active_object s = Some ob" and "data ob = MeshData m"
    and sp: "space_data s = Some sp"
  shows "fst (OBJECT_OT_ApplyBSphereModifiers_execute h v s) = Return {''FINISHED''}"
proof -
  from execute_post[OF assms(1) sp, of h v]
  obtain ob2 cs rs s2 where p: "loop_post h ob modifiers_to_apply ob2 cs rs"
    and s2: "s2 = (xray_off s)\<lparr>active_object := Some ob2, calls := calls s @ cs,
        reports := reports s @ rs\<rparr>"
    and l: "apply_loop h modifiers_to_apply (xray_off s) = (Return (), s2)"
    and e: "OBJECT_OT_ApplyBSphereModifiers_execute h v s =
       (case data ob2 of
          NoData \<Rightarrow> (Raise AttributeError, s2)
        | MeshData m2 \<Rightarrow>
            (case voxel_remesh_result h (ob2\<lparr>data := MeshData (m2\<lparr>remesh_voxel_size := v\<rparr>)\<rparr>) of
               Inl msg \<Rightarrow>
                 (Return {''FINISHED''},
                  s2\<lparr>active_object := Some (ob2\<lparr>data := MeshData (m2\<lparr>remesh_voxel_size := v\<rparr>)\<rparr>),
                     calls := calls s @ cs @
                       [VoxelRemesh (Some (ob2\<lparr>data := MeshData (m2\<lparr>remesh_voxel_size := v\<rparr>)\<rparr>)) False],
                     reports := reports s @ rs @ [(''ERROR'', ''Remesh failed: '' @ msg)]\<rparr>)
             | Inr g \<Rightarrow>
                 (Return {''FINISHED''},
                  s2\<lparr>active_object :=
                       Some (ob2\<lparr>data := MeshData (set_geometry (m2\<lparr>remesh_voxel_size := v\<rparr>) g)\<rparr>),
                     calls := calls s @ cs @
                       [VoxelRemesh (Some (ob2\<lparr>data := MeshData (m2\<lparr>remesh_voxel_size := v\<rparr>)\<rparr>)) True],
                     reports := reports s @ rs @ [(''INFO'', ''bSphere mesh applied and remeshed.'')]\<rparr>)))"
    by (elim exE conjE)
  from loop_keeps_mesh[OF p assms(2)] obtain m2 where "data ob2 = MeshData m2" by blast
  then show ?thesis unfolding e by (simp split: sum.splits)
qed

text \<open>
  In a context with a space, a run of the Finalizer on a mesh object, whatever the bakes
  and the remesh do: the last host call is the voxel remesh, made on an object whose
  mesh has voxel size \<open>v\<close>, and the mesh of the object still has voxel size \<open>v\<close> after
  the run, whether the remesh succeeded or failed.
\<close>
lemma finalizer_in_space_voxel_size_written:
  assumes "active_object s = Some ob" and "data ob = MeshData m"
    and sp: "space_data s = Some sp"
  shows "\<exists>o4 ok.
      new_calls s (snd (OBJECT_OT_ApplyBSphereModifiers_execute h v s)) \<noteq> [] \<and>
      last (new_calls s (snd (OBJECT_OT_ApplyBSphereModifiers_execute h v s))) =
        VoxelRemesh (Some o4) ok \<and>
      remeshes (new_calls s (snd (OBJECT_OT_ApplyBSphereModifiers_execute h v s))) = [ok] \<and>
      mesh_voxel_size (Some o4) = Some v \<and>
      mesh_voxel_size (active_object (snd (OBJECT_OT_ApplyBSphereModifiers_execute h v s))) = Some v"
proof -
  from execute_post[OF assms(1) sp, of h v]
  obtain ob2 cs rs s2 where p: "loop_post h ob modifiers_to_apply ob2 cs rs"
    and s2: "s2 = (xray_off s)\<lparr>active_object := Some ob2, calls := calls s @ cs,
        reports := reports s @ rs\<rparr>"
    and l: "apply_loop h modifiers_to_apply (xray_off s) = (Return (), s2)"
    and e: "OBJECT_OT_ApplyBSphereModifiers_execute h v s =
       (case data ob2 of
          NoData \<Rightarrow> (Raise AttributeError, s2)
        | MeshData m2 \<Rightarrow>
            (case voxel_remesh_result h (ob2\<lparr>data := MeshData (m2\<lparr>remesh_voxel_size := v\<rparr>)\<rparr>) of
               Inl msg \<Rightarrow>
                 (Return {''FINISHED''},
                  s2\<lparr>active_object := Some (ob2\<lparr>data := MeshData (m2\<lparr>remesh_voxel_size := v\<rparr>)\<rparr>),
                     calls := calls s @ cs @
                       [VoxelRemesh (Some (ob2\<lparr>data := MeshData (m2\<lparr>remesh_voxel_size := v\<rparr>)\<rparr>)) False],
                     reports := reports s @ rs @ [(''ERROR'', ''Remesh failed: '' @ msg)]\<rparr>)
             | Inr g \<Rightarrow>
                 (Return {''FINISHED''},
                  s2\<lparr>active_object :=
                       Some (ob2\<lparr>data := MeshData (set_geometry (m2\<lparr>remesh_voxel_size := v\<rparr>) g)\<rparr>),
                     calls := calls s @ cs @
                       [VoxelRemesh (Some (ob2\<lparr>data := MeshData (m2\<lparr>remesh_voxel_size := v\<rparr>)\<rparr>)) True],
                     reports := reports s @ rs @ [(''INFO'', ''bSphere mesh applied and remeshed.'')]\<rparr>)))"
    by (elim exE conjE)
  from loop_keeps_mesh[OF p assms(2)] obtain m2 where m2: "data ob2 = MeshData m2" by blast
  have r: "remeshes cs = []" using p by (simp add: loop_post_def)
  show ?thesis
  proof (cases "voxel_remesh_result h (ob2\<lparr>data := MeshData (m2\<lparr>remesh_voxel_size := v\<rparr>)\<rparr>)")
    case (Inl msg)
    show ?thesis
      apply (rule exI[of _ "ob2\<lparr>data := MeshData (m2\<lparr>remesh_voxel_size := v\<rparr>)\<rparr>"])
      apply (rule exI[of _ False])
      unfolding e s2 using m2 r Inl
      apply (simp add: new_calls_def remeshes_def mesh_voxel_size_def)
      done
  next
    case (Inr g)
    show ?thesis
      apply (rule exI[of _ "ob2\<lparr>data := MeshData (m2\<lparr>remesh_voxel_size := v\<rparr>)\<rparr>"])
      apply (rule exI[of _ True])
      unfolding e s2 using m2 r Inr
      apply (simp add: new_calls_def remeshes_def mesh_voxel_size_def set_geometry_voxel)
      done
  qed
qed

text \<open>
  Claim C5.  A run of the Finalizer in which the voxel remesh is called and fails: the
  run returns \<^verbatim>\<open>{'FINISHED'}\<close>, no exception leaves it, and the state after the run is
  the state the loop over the modifiers left, with the voxel size written to the mesh,
  the failed host call logged and one \<^verbatim>\<open>ERROR\<close> message carrying the host's message
  added.  The geometry of the mesh after the run is the geometry the bakes produced.
\<close>
theorem finalizer_remesh_failure:
  assumes "active_object s = Some ob"
    and "remeshes (new_calls s (snd (OBJECT_OT_ApplyBSphereModifiers_execute h v s))) = [False]"
  shows "\<exists>s2 ob2 m2 msg.
      apply_loop h [''Mirror'', ''Skin'', ''Subdivision''] (xray_off s) = (Return (), s2) \<and>
      active_object s2 = Some ob2 \<and> data ob2 = MeshData m2 \<and>
      voxel_remesh_result h (ob2\<lparr>data := MeshData (m2\<lparr>remesh_voxel_size := v\<rparr>)\<rparr>) = Inl msg \<and>
      OBJECT_OT_ApplyBSphereModifiers_execute h v s =
        (Return {''FINISHED''},
         s2\<lparr>active_object := Some (ob2\<lparr>data := MeshData (m2\<lparr>remesh_voxel_size := v\<rparr>)\<rparr>),
            calls := calls s2 @
              [VoxelRemesh (Some (ob2\<lparr>data := MeshData (m2\<lparr>remesh_voxel_size := v\<rparr>)\<rparr>)) False],
            reports := reports s2 @ [(''ERROR'', ''Remesh failed: '' @ msg)]\<rparr>) \<and>
      mesh_geometry (active_object (snd (OBJECT_OT_ApplyBSphereModifiers_execute h v s))) =
        mesh_geometry (Some ob2)"
proof -
  from assms(2)
  have "new_calls s (snd (OBJECT_OT_ApplyBSphereModifiers_execute h v s)) \<noteq> []"
    by (auto simp: remeshes_def)
  from space_of_calls[OF this] obtain sp where sp: "space_data s = Some sp" by (elim exE)
  from execute_post[OF assms(1) sp, of h v]
  obtain ob2 cs rs s2 where p: "loop_post h ob modifiers_to_apply ob2 cs rs"
    and s2: "s2 = (xray_off s)\<lparr>active_object := Some ob2, calls := calls s @ cs,
        reports := reports s @ rs\<rparr>"
    and l: "apply_loop h modifiers_to_apply (xray_off s) = (Return (), s2)"
    and e: "OBJECT_OT_ApplyBSphereModifiers_execute h v s =
       (case data ob2 of
          NoData \<Rightarrow> (Raise AttributeError, s2)
        | MeshData m2 \<Rightarrow>
            (case voxel_remesh_result h (ob2\<lparr>data := MeshData (m2\<lparr>remesh_voxel_size := v\<rparr>)\<rparr>) of
               Inl msg \<Rightarrow>
                 (Return {''FINISHED''},
                  s2\<lparr>active_object := Some (ob2\<lparr>data := MeshData (m2\<lparr>remesh_voxel_size := v\<rparr>)\<rparr>),
                     calls := calls s @ cs @
                       [VoxelRemesh (Some (ob2\<lparr>data := MeshData (m2\<lparr>remesh_voxel_size := v\<rparr>)\<rparr>)) False],
                     reports := reports s @ rs @ [(''ERROR'', ''Remesh failed: '' @ msg)]\<rparr>)
             | Inr g \<Rightarrow>
                 (Return {''FINISHED''},
                  s2\<lparr>active_object :=
                       Some (ob2\<lparr>data := MeshData (set_geometry (m2\<lparr>remesh_voxel_size := v\<rparr>) g)\<rparr>),
                     calls := calls s @ cs @
                       [VoxelRemesh (Some (ob2\<lparr>data := MeshData (m2\<lparr>remesh_voxel_size := v\<rparr>)\<rparr>)) True],
                     reports := reports s @ rs @ [(''INFO'', ''bSphere mesh applied and remeshed.'')]\<rparr>)))"
    by (elim exE conjE)
  have r: "remeshes cs = []" using p by (simp add: loop_post_def)
  have a2: "active_object s2 = Some ob2" "calls s2 = calls s @ cs" "reports s2 = reports s @ rs"
    unfolding s2 by simp_all
  show ?thesis
  proof (cases "data ob2")
    case NoData
    then have "remeshes (new_calls s (snd (OBJECT_OT_ApplyBSphereModifiers_execute h v s))) = []"
      unfolding e using r a2 by (simp add: new_calls_def)
    with assms(2) show ?thesis by simp
  next
    case (MeshData m2)
    show ?thesis
    proof (cases "voxel_remesh_result h (ob2\<lparr>data := MeshData (m2\<lparr>remesh_voxel_size := v\<rparr>)\<rparr>)")
      case (Inl msg)
      have "OBJECT_OT_ApplyBSphereModifiers_execute h v s =
        (Return {''FINISHED''},
         s2\<lparr>active_object := Some (ob2\<lparr>data := MeshData (m2\<lparr>remesh_voxel_size := v\<rparr>)\<rparr>),
            calls := calls s2 @
              [VoxelRemesh (Some (ob2\<lparr>data := MeshData (m2\<lparr>remesh_voxel_size := v\<rparr>)\<rparr>)) False],
            reports := reports s2 @ [(''ERROR'', ''Remesh failed: '' @ msg)]\<rparr>)"
        (is "_ = (_, ?s')")
        unfolding e using MeshData Inl a2 by simp
      note x = this
      have g: "mesh_geometry (active_object (snd (OBJECT_OT_ApplyBSphereModifiers_execute h v s))) =
          mesh_geometry (Some ob2)"
        unfolding x using MeshData by (simp add: mesh_geometry_def)
      show ?thesis
        apply (rule exI[of _ s2], rule exI[of _ ob2], rule exI[of _ m2], rule exI[of _ msg])
        apply (intro conjI l[unfolded modifiers_to_apply_def] a2(1) MeshData Inl x g)
        done
    next
      case (Inr g)
      then have "remeshes (new_calls s (snd (OBJECT_OT_ApplyBSphereModifiers_execute h v s))) = [True]"
        unfolding e s2 using r MeshData by (simp add: new_calls_def remeshes_def)
      with assms(2) show ?thesis by simp
    qed
  qed
qed

text \<open>
  Claim C9, at an input where it fails.  The operator's \<^verbatim>\<open>poll\<close> accepts an active
  object of any type in object mode.  On an object without mesh data \<^verbatim>\<open>obj.data\<close> has
  no \<^verbatim>\<open>remesh_voxel_size\<close>: the assignment raises \<^verbatim>\<open>AttributeError\<close>, which nothing
  catches, and \<^verbatim>\<open>execute\<close> does not return \<^verbatim>\<open>{'FINISHED'}\<close>.
\<close>
theorem finalizer_raises_on_empty:
  "OBJECT_OT_ApplyBSphereModifiers_poll (state_of empty_object) \<and>
   fst (OBJECT_OT_ApplyBSphereModifiers_execute h v (state_of empty_object)) = Raise AttributeError"
  by (simp add: OBJECT_OT_ApplyBSphereModifiers_poll_def context_mode_def state_of_def
      empty_object_def OBJECT_OT_ApplyBSphereModifiers_execute_def modifiers_to_apply_def
      apply_one_def modifiers_get_def)









lemmas script_defs = script_state_of_def state_of_def example_object_def example_mesh_def

text \<open>
  Claim C3, at an input where it fails.  In a context without a space the first
  statement of \<^verbatim>\<open>execute\<close>, the test of \<^verbatim>\<open>context.space_data.type\<close>, raises
  \<^verbatim>\<open>AttributeError\<close>, which nothing catches.  The operator's \<^verbatim>\<open>poll\<close> accepts the
  context.  The example object has all three named modifiers, and for every behaviour of
  the host: no bake is asked for, no message is reported, and the object keeps its
  stack.
\<close>
theorem finalizer_without_space_bakes_nothing:
  "OBJECT_OT_ApplyBSphereModifiers_poll (script_state_of example_object) \<and>
   filter (stage_present example_object) [''Mirror'', ''Skin'', ''Subdivision''] =
     [''Mirror'', ''Skin'', ''Subdivision''] \<and>
   OBJECT_OT_ApplyBSphereModifiers_execute h v (script_state_of example_object) =
     (Raise AttributeError, script_state_of example_object) \<and>
   bakes (new_calls (script_state_of example_object)
     (snd (OBJECT_OT_ApplyBSphereModifiers_execute h v (script_state_of example_object)))) = [] \<and>
   new_reports (script_state_of example_object)
     (snd (OBJECT_OT_ApplyBSphereModifiers_execute h v (script_state_of example_object))) = [] \<and>
   active_object
     (snd (OBJECT_OT_ApplyBSphereModifiers_execute h v (script_state_of example_object))) =
     Some example_object"
proof -
  have e: "OBJECT_OT_ApplyBSphereModifiers_execute h v (script_state_of example_object) =
      (Raise AttributeError, script_state_of example_object)"
    by (rule execute_no_space) (simp add: script_state_of_def)
  have p: "OBJECT_OT_ApplyBSphereModifiers_poll (script_state_of example_object)"
    by (simp add: OBJECT_OT_ApplyBSphereModifiers_poll_def context_mode_def script_defs)
  have f: "filter (stage_present example_object) [''Mirror'', ''Skin'', ''Subdivision''] =
      [''Mirror'', ''Skin'', ''Subdivision'']"
    by (simp add: stage_present_def modifiers_get_def example_object_def)
  show ?thesis
    unfolding e using p f
    by (simp add: new_calls_def new_reports_def bakes_def script_state_of_def state_of_def)
qed

text \<open>
  Claim C10, at an input where it fails.  In a context without a space, which the
  operator's \<^verbatim>\<open>poll\<close> accepts, \<^verbatim>\<open>execute\<close> raises before it reaches the assignment
  to \<^verbatim>\<open>mesh.remesh_voxel_size\<close>: for every behaviour of the host the remesh is not
  called, and the mesh of the example object keeps its voxel size 0.1 in a run with the
  operator's default voxel size 0.05.
\<close>
theorem finalizer_without_space_keeps_voxel_size:
  "OBJECT_OT_ApplyBSphereModifiers_poll (script_state_of example_object) \<and>
   mesh_voxel_size (active_object (script_state_of example_object)) = Some 0.1 \<and>
   voxel_size_default \<noteq> 0.1 \<and>
   fst (OBJECT_OT_ApplyBSphereModifiers_execute h voxel_size_default
          (script_state_of example_object)) = Raise AttributeError \<and>
   remeshes (new_calls (script_state_of example_object)
     (snd (OBJECT_OT_ApplyBSphereModifiers_execute h voxel_size_default
        (script_state_of example_object)))) = [] \<and>
   mesh_voxel_size (active_object
     (snd (OBJECT_OT_ApplyBSphereModifiers_execute h voxel_size_default
        (script_state_of example_object)))) = Some 0.1"
proof -
  have e: "OBJECT_OT_ApplyBSphereModifiers_execute h voxel_size_default
        (script_state_of example_object) =
      (Raise AttributeError, script_state_of example_object)"
    by (rule execute_no_space) (simp add: script_state_of_def)
  have p: "OBJECT_OT_ApplyBSphereModifiers_poll (script_state_of example_object)"
    by (simp add: OBJECT_OT_ApplyBSphereModifiers_poll_def context_mode_def script_defs)
  have v: "mesh_voxel_size (active_object (script_state_of example_object)) = Some 0.1"
    by (simp add: mesh_voxel_size_def script_defs)
  have d: "voxel_size_default \<noteq> 0.1" by (simp add: voxel_size_default_def)
  show ?thesis
    unfolding e using p v d by (simp add: new_calls_def remeshes_def)
qed


subsection \<open>The Finalizer on the example inputs\<close>

lemmas ex_defs = state_of_def example_object_def example_mesh_def host_skin_fails_def host_ok_def
  host_fails_def host_remesh_fails_def empty_object_def triangle_def

lemmas run_defs = OBJECT_OT_ApplyBSphereModifiers_execute_def modifiers_to_apply_def apply_one_def
  ops_object_modifier_apply_def ops_object_voxel_remesh_def modifiers_get_def report_def
  set_geometry_def poll_failed_def

lemmas obs_defs = new_calls_def new_reports_def bakes_def baked_def not_baked_def remeshes_def
  warning_def stage_present_def mesh_voxel_size_def


lemma finalizer_in_space_bakes_in_order_past_failures_example:
  "map fst (bakes (new_calls (state_of example_object)
      (snd (OBJECT_OT_ApplyBSphereModifiers_execute host_skin_fails 0.05 (state_of example_object))))) =
     [''Mirror'', ''Skin'', ''Subdivision''] \<and>
   filter (\<lambda>r. fst r = ''WARNING'') (new_reports (state_of example_object)
      (snd (OBJECT_OT_ApplyBSphereModifiers_execute host_skin_fails 0.05 (state_of example_object)))) =
     [(''WARNING'', ''Could not apply modifier: Skin'')] \<and>
   (\<exists>ob'. active_object
        (snd (OBJECT_OT_ApplyBSphereModifiers_execute host_skin_fails 0.05 (state_of example_object))) =
        Some ob' \<and>
      modifiers ob' = [\<lparr>name = ''Skin'', settings = SkinModifier False False False\<rparr>])"
proof -
  have a: "active_object (state_of example_object) = Some example_object"
    by (simp add: state_of_def)
  have d: "distinct (map name (modifiers example_object))"
    by (simp add: example_object_def)
  have p: "filter (stage_present example_object) [''Mirror'', ''Skin'', ''Subdivision''] =
      [''Mirror'', ''Skin'', ''Subdivision'']"
    by (simp add: stage_present_def modifiers_get_def example_object_def)
  have n: "not_baked (new_calls (state_of example_object)
      (snd (OBJECT_OT_ApplyBSphereModifiers_execute host_skin_fails 0.05 (state_of example_object)))) =
      [''Skin'']"
    by (simp add: ex_defs run_defs obs_defs)
  have b: "baked (new_calls (state_of example_object)
      (snd (OBJECT_OT_ApplyBSphereModifiers_execute host_skin_fails 0.05 (state_of example_object)))) =
      [''Mirror'', ''Subdivision'']"
    by (simp add: ex_defs run_defs obs_defs)
  have m: "filter (\<lambda>m. name m \<notin> set [''Mirror'', ''Subdivision'']) (modifiers example_object) =
      [\<lparr>name = ''Skin'', settings = SkinModifier False False False\<rparr>]"
    by (simp add: example_object_def)
  have sp: "space_data (state_of example_object) =
      Some \<lparr>space_type = ''VIEW_3D'', show_xray = True\<rparr>"
    by (simp add: state_of_def)
  show ?thesis
    using finalizer_in_space_bakes_in_order_past_failures[OF a d sp, of host_skin_fails "0.05"]
    unfolding p n b m by (simp add: warning_def)
qed



theorem finalizer_remesh_failure_witness:
  "active_object (state_of example_object) = Some example_object \<and>
   remeshes (new_calls (state_of example_object) (snd (OBJECT_OT_ApplyBSphereModifiers_execute host_remesh_fails 0.05 (state_of example_object)))) = [False] \<and>
   (\<exists>s2 ob2 m2 msg.
      apply_loop host_remesh_fails [''Mirror'', ''Skin'', ''Subdivision'']
        (xray_off (state_of example_object)) = (Return (), s2) \<and>
      active_object s2 = Some ob2 \<and> data ob2 = MeshData m2 \<and>
      voxel_remesh_result host_remesh_fails
        (ob2\<lparr>data := MeshData (m2\<lparr>remesh_voxel_size := 0.05\<rparr>)\<rparr>) = Inl msg \<and>
      OBJECT_OT_ApplyBSphereModifiers_execute host_remesh_fails 0.05 (state_of example_object) =
        (Return {''FINISHED''},
         s2\<lparr>active_object := Some (ob2\<lparr>data := MeshData (m2\<lparr>remesh_voxel_size := 0.05\<rparr>)\<rparr>),
            calls := calls s2 @
              [VoxelRemesh (Some (ob2\<lparr>data := MeshData (m2\<lparr>remesh_voxel_size := 0.05\<rparr>)\<rparr>)) False],
            reports := reports s2 @ [(''ERROR'', ''Remesh failed: '' @ msg)]\<rparr>) \<and>
      mesh_geometry (active_object
          (snd (OBJECT_OT_ApplyBSphereModifiers_execute host_remesh_fails 0.05
             (state_of example_object)))) =
        mesh_geometry (Some ob2))"
proof -
  have p1: "active_object (state_of example_object) = Some example_object"
    by (simp add: state_of_def)
  have p2: "remeshes (new_calls (state_of example_object) (snd (OBJECT_OT_ApplyBSphereModifiers_execute host_remesh_fails 0.05 (state_of example_object)))) = [False]"
    by (simp add: ex_defs run_defs obs_defs)
  show ?thesis
    by (intro conjI p1 p2 finalizer_remesh_failure[OF p1 p2])
qed

lemma finalizer_in_space_voxel_size_written_example:
  "(\<exists>o4 ok.
      new_calls (state_of example_object) (snd (OBJECT_OT_ApplyBSphereModifiers_execute host_fails 0.05 (state_of example_object))) \<noteq> [] \<and>
      last (new_calls (state_of example_object) (snd (OBJECT_OT_ApplyBSphereModifiers_execute host_fails 0.05 (state_of example_object)))) = VoxelRemesh (Some o4) ok \<and>
      remeshes (new_calls (state_of example_object) (snd (OBJECT_OT_ApplyBSphereModifiers_execute host_fails 0.05 (state_of example_object)))) = [ok] \<and>
      mesh_voxel_size (Some o4) = Some 0.05 \<and>
      mesh_voxel_size (active_object (snd (OBJECT_OT_ApplyBSphereModifiers_execute host_fails 0.05 (state_of example_object)))) = Some 0.05)"
proof -
  have p1: "active_object (state_of example_object) = Some example_object"
    by (simp add: state_of_def)
  have p2: "data example_object = MeshData example_mesh"
    by (simp add: example_object_def)
  have sp: "space_data (state_of example_object) =
      Some \<lparr>space_type = ''VIEW_3D'', show_xray = True\<rparr>"
    by (simp add: state_of_def)
  show ?thesis
    by (rule finalizer_in_space_voxel_size_written[OF p1 p2 sp])
qed



section \<open>Properties of the Base Creator\<close>

lemmas create_defs = setup_modifiers_def modifiers_new_def Let_def unique_name_def
  split_name_num_def is_digit_def atol_def digit_value_def pad3_def ensure_skin_customdata_def
  modifier_setattr_def modifiers_get_def bind_def and_then_def ops_object_mode_set_def
  ops_mesh_select_all_def ops_object_skin_root_mark_def select_all_verts_def
  data_meshes_new_def bm_to_mesh_def bm_verts_new_def bmesh_new_def skin_root_mark_verts_def
  skin_root_mark_vert_def neighbours_def join_mesh_def object_type_def

subsection \<open>Outside the edit mode of a mesh\<close>

lemma object_data_add_new:
  assumes "context_mode s \<noteq> ''EDIT_MESH''"
  shows "object_data_add s m =
     s\<lparr>active_object := Some
         \<lparr>data = MeshData m, modifiers = [],
          mode = (if use_enter_edit_mode s then ''EDIT'' else ''OBJECT'')\<rparr>\<rparr>"
  using assms
  by (auto simp: object_data_add_def context_mode_def object_type_def Let_def
      split: option.splits object_data.splits)

lemma setup_modifiers_new:
  "setup_modifiers
     \<lparr>data = MeshData
        \<lparr>vertices = [\<lparr>co = (0, 0, 0), select = False, use_root = False, use_loose = False\<rparr>],
         edges = [], polygons = [], remesh_voxel_size = 0.1, has_skin_vertices = False\<rparr>,
      modifiers = [], mode = md\<rparr> =
   Return
     \<lparr>data = MeshData
        \<lparr>vertices = [\<lparr>co = (0, 0, 0), select = False, use_root = True, use_loose = False\<rparr>],
         edges = [], polygons = [], remesh_voxel_size = 0.1, has_skin_vertices = True\<rparr>,
      modifiers =
        [\<lparr>name = ''Mirror'', settings = MirrorModifier (True, False, False)\<rparr>,
         \<lparr>name = ''Skin'', settings = SkinModifier False False False\<rparr>,
         \<lparr>name = ''Subdivision'', settings = SubsurfModifier 2 2\<rparr>],
      mode = md\<rparr>"
  by (simp add: setup_modifiers_def modifiers_new_def Let_def unique_name_def
      ensure_skin_customdata_def modifier_setattr_def modifiers_get_def bind_def)

text \<open>
  In every context that is not the edit mode of a mesh, \<^verbatim>\<open>execute\<close> leaves as active
  object a new mesh object in edit mode, with the one vertex, selected and marked as
  root, and the three modifiers.  It returns \<^verbatim>\<open>{'FINISHED'}\<close> when the context has a
  space and raises \<^verbatim>\<open>AttributeError\<close> at its last statement when it has none.
\<close>

lemma create_outside_edit_mode:
  assumes "context_mode s \<noteq> ''EDIT_MESH''"
  shows "MESH_OT_PrimitiveBSphereAdd_execute s =
     ((case space_data s of None \<Rightarrow> Raise AttributeError | Some sp \<Rightarrow> Return {''FINISHED''}),
      s\<lparr>active_object := Some
          \<lparr>data = MeshData
             \<lparr>vertices = [\<lparr>co = (0, 0, 0), select = True, use_root = True, use_loose = False\<rparr>],
              edges = [], polygons = [], remesh_voxel_size = 0.1, has_skin_vertices = True\<rparr>,
           modifiers =
             [\<lparr>name = ''Mirror'', settings = MirrorModifier (True, False, False)\<rparr>,
              \<lparr>name = ''Skin'', settings = SkinModifier False False False\<rparr>,
              \<lparr>name = ''Subdivision'', settings = SubsurfModifier 2 2\<rparr>],
           mode = ''EDIT''\<rparr>,
        space_data :=
          (case space_data s of
             None \<Rightarrow> None
           | Some sp \<Rightarrow>
               Some (if space_type sp = ''VIEW_3D'' then sp\<lparr>show_xray := True\<rparr> else sp))\<rparr>)"
  unfolding MESH_OT_PrimitiveBSphereAdd_execute_def Let_def object_data_add_new[OF assms]
  by (simp add: data_meshes_new_def bm_to_mesh_def bm_verts_new_def bmesh_new_def
      setup_modifiers_new and_then_def ops_object_mode_set_def ops_mesh_select_all_def
      ops_object_skin_root_mark_def select_all_verts_def ensure_skin_customdata_def
      skin_root_mark_verts_def skin_root_mark_vert_def
      split: option.splits)

lemma create_outside_edit_mode_example:
  "context_mode (state_of example_object) \<noteq> ''EDIT_MESH'' \<and>
   fst (MESH_OT_PrimitiveBSphereAdd_execute (state_of example_object)) = Return {''FINISHED''}"
proof -
  have c: "context_mode (state_of example_object) \<noteq> ''EDIT_MESH''"
    by (simp add: context_mode_def state_of_def example_object_def)
  show ?thesis
    unfolding create_outside_edit_mode[OF c] using c by (simp add: state_of_def)
qed

subsection \<open>In the edit mode of a mesh\<close>

lemma execute_add_edit_object:
  "MESH_OT_PrimitiveBSphereAdd_execute (state_of edit_object) =
     (Return {''FINISHED''},
      (state_of edit_object)\<lparr>active_object := Some
          \<lparr>data = MeshData
             \<lparr>vertices =
                [\<lparr>co = (0, 0, 0), select = True, use_root = True, use_loose = False\<rparr>,
                 \<lparr>co = (0, 0, 1), select = True, use_root = False, use_loose = False\<rparr>,
                 \<lparr>co = (0, 0, 0), select = True, use_root = True, use_loose = False\<rparr>],
              edges = [(0, 1)], polygons = [], remesh_voxel_size = 0.1,
              has_skin_vertices = True\<rparr>,
           modifiers =
             [\<lparr>name = ''Mirror'', settings = MirrorModifier (True, False, False)\<rparr>,
              \<lparr>name = ''Skin'', settings = SkinModifier False False False\<rparr>,
              \<lparr>name = ''Subdivision'', settings = SubsurfModifier 2 2\<rparr>,
              \<lparr>name = ''Mirror.001'', settings = MirrorModifier (True, False, False)\<rparr>,
              \<lparr>name = ''Skin.001'', settings = SkinModifier False False False\<rparr>,
              \<lparr>name = ''Subdivision.001'', settings = SubsurfModifier 2 2\<rparr>],
           mode = ''EDIT''\<rparr>\<rparr>)"
  unfolding MESH_OT_PrimitiveBSphereAdd_execute_def object_data_add_def
  by (simp add: create_defs state_of_def edit_object_def example_object_def example_mesh_def
      upt_rec enumerate_eq_zip numeral_2_eq_2)

text \<open>
  Claim C1, at an input where it fails.  The operator is enabled while a mesh is being
  edited.  There \<^verbatim>\<open>object_data_add\<close> joins the new mesh into the edited object, and
  \<^verbatim>\<open>context.active_object\<close> in step 3 of \<^verbatim>\<open>execute\<close> is that object, not
  ``the one we just created'': no object is created.  On the example object in edit mode
  (two vertices, one edge, the three modifiers) the run finishes and leaves the edited
  mesh with three vertices and one edge, and the stack with six modifiers, the three new
  ones under the names \<^verbatim>\<open>Mirror.001\<close>, \<^verbatim>\<open>Skin.001\<close> and \<^verbatim>\<open>Subdivision.001\<close>.
\<close>

theorem create_in_edit_mode_changes_edited_mesh:
  "MESH_OT_PrimitiveBSphereAdd_poll (state_of edit_object) \<and>
   mesh_geometry (active_object (state_of edit_object)) =
     Some ([\<lparr>co = (0, 0, 0), select = False, use_root = True, use_loose = False\<rparr>,
            \<lparr>co = (0, 0, 1), select = False, use_root = False, use_loose = False\<rparr>],
           [(0, 1)], []) \<and>
   (\<exists>s' ob m.
      MESH_OT_PrimitiveBSphereAdd_execute (state_of edit_object) = (Return {''FINISHED''}, s') \<and>
      active_object s' = Some ob \<and> data ob = MeshData m \<and>
      map co (vertices m) = [(0, 0, 0), (0, 0, 1), (0, 0, 0)] \<and>
      edges m = [(0, 1)] \<and> polygons m = [] \<and>
      modifiers ob =
        [\<lparr>name = ''Mirror'', settings = MirrorModifier (True, False, False)\<rparr>,
         \<lparr>name = ''Skin'', settings = SkinModifier False False False\<rparr>,
         \<lparr>name = ''Subdivision'', settings = SubsurfModifier 2 2\<rparr>,
         \<lparr>name = ''Mirror.001'', settings = MirrorModifier (True, False, False)\<rparr>,
         \<lparr>name = ''Skin.001'', settings = SkinModifier False False False\<rparr>,
         \<lparr>name = ''Subdivision.001'', settings = SubsurfModifier 2 2\<rparr>])"
  unfolding execute_add_edit_object
  by (simp add: MESH_OT_PrimitiveBSphereAdd_poll_def AddObjectHelper_poll_def state_of_def
      mesh_geometry_def edit_object_def example_object_def example_mesh_def)

text \<open>
  Claim C6, at an input where it fails.  On the example object in edit mode the run
  leaves the edited object in edit mode with three vertices, all of them selected: the
  two it had and the new one.  Marking the roots of the selection makes the first vertex
  of each island the root: the second old vertex, selected, is not marked.
\<close>

theorem create_in_edit_mode_marks_old_vertices:
  "\<exists>s' ob m.
     MESH_OT_PrimitiveBSphereAdd_execute (state_of edit_object) = (Return {''FINISHED''}, s') \<and>
     active_object s' = Some ob \<and> mode ob = ''EDIT'' \<and> context_mode s' = ''EDIT_MESH'' \<and>
     data ob = MeshData m \<and> length (vertices m) = 3 \<and>
     map select (vertices m) = [True, True, True] \<and>
     map use_root (vertices m) = [True, False, True]"
  unfolding execute_add_edit_object
  by (simp add: context_mode_def object_type_def)

text \<open>
  Claim C7, at an input where it fails.  With the example object in edit mode the
  context is not in object mode; the availability check of the Finalizer refuses it, the
  one of \<^verbatim>\<open>MESH_OT_PrimitiveBSphereAdd\<close> accepts it, and the body runs to its end
  without a check of the mode.  The availability check does not look at the active
  object at all, so it cannot tell the modes apart.
\<close>

theorem create_enabled_in_edit_mode:
  "context_mode (state_of edit_object) = ''EDIT_MESH'' \<and>
   MESH_OT_PrimitiveBSphereAdd_poll (state_of edit_object) \<and>
   \<not> OBJECT_OT_ApplyBSphereModifiers_poll (state_of edit_object) \<and>
   fst (MESH_OT_PrimitiveBSphereAdd_execute (state_of edit_object)) = Return {''FINISHED''} \<and>
   MESH_OT_PrimitiveBSphereAdd_poll (s\<lparr>active_object := a\<rparr>) =
     MESH_OT_PrimitiveBSphereAdd_poll s"
  unfolding execute_add_edit_object
  by (simp add: context_mode_def state_of_def edit_object_def example_object_def
      object_type_def MESH_OT_PrimitiveBSphereAdd_poll_def AddObjectHelper_poll_def
      OBJECT_OT_ApplyBSphereModifiers_poll_def)

section \<open>Properties of the Contextual Panel\<close>

lemmas control_defs = is_mirror_control_def is_subsurf_control_def is_skin_control_def
  is_finalize_action_def

lemma filter_fixed_sections:
  "filter is_mirror_control creation_section = []"
  "filter is_subsurf_control creation_section = []"
  "filter is_skin_control creation_section = []"
  "filter is_finalize_action creation_section = []"
  "filter is_mirror_control apply_section = []"
  "filter is_subsurf_control apply_section = []"
  "filter is_skin_control apply_section = []"
  "filter is_finalize_action apply_section =
     [UI_operator ''tcg.apply_bsphere_modifiers'' ''Voxel Remesh & Apply'' []]"
  "filter is_mirror_control info_text = []"
  "filter is_subsurf_control info_text = []"
  "filter is_skin_control info_text = []"
  "filter is_finalize_action info_text = []"
  by (simp_all add: control_defs creation_section_def apply_section_def info_text_def)

lemma filter_mirror_controls:
  "filter is_mirror_control (mirror_controls ob) =
     (if stage_present ob ''Mirror''
      then [UI_prop ''Mirror'' ''use_axis'' (Some 0) ''X'',
            UI_prop ''Mirror'' ''use_axis'' (Some 1) ''Y'',
            UI_prop ''Mirror'' ''use_axis'' (Some 2) ''Z'']
      else [])"
  "filter is_subsurf_control (mirror_controls ob) = []"
  "filter is_skin_control (mirror_controls ob) = []"
  "filter is_finalize_action (mirror_controls ob) = []"
  by (auto simp: control_defs mirror_controls_def stage_present_def
      dest: modifiers_get_name split: option.splits)

lemma filter_subsurf_controls:
  "filter is_subsurf_control (subsurf_controls ob) =
     (if stage_present ob ''Subdivision''
      then [UI_prop ''Subdivision'' ''levels'' None []] else [])"
  "filter is_mirror_control (subsurf_controls ob) = []"
  "filter is_skin_control (subsurf_controls ob) = []"
  "filter is_finalize_action (subsurf_controls ob) = []"
  by (auto simp: control_defs subsurf_controls_def stage_present_def
      dest: modifiers_get_name split: option.splits)

lemma filter_skin_controls:
  "filter is_skin_control (skin_controls ob) =
     (if stage_present ob ''Skin''
      then [UI_operator ''object.skin_loose_mark_clear'' ''Mark Loose'' [(''action'', ''MARK'')],
            UI_operator ''object.skin_loose_mark_clear'' ''Clear Loose'' [(''action'', ''CLEAR'')],
            UI_operator ''object.skin_root_mark'' ''Mark Root'' []]
      else [])"
  "filter is_mirror_control (skin_controls ob) = []"
  "filter is_subsurf_control (skin_controls ob) = []"
  "filter is_finalize_action (skin_controls ob) = []"
  by (auto simp: control_defs skin_controls_def stage_present_def split: option.splits)

lemma draw_mesh:
  assumes "active_object s = Some ob" "data ob = MeshData m"
  shows "snd (draw s) =
     (if has_bsphere_setup ob
      then creation_section @ [UI_box, UI_label ''Modifiers''] @ mirror_controls ob @
        subsurf_controls ob @ skin_controls ob @ apply_section @ info_text
      else creation_section)"
  using assms by (simp add: draw_def object_type_def)

text \<open>
  Claim C2, as the code has it.  For every mesh object that is active, whichever of the
  three modifiers it has: \<^verbatim>\<open>has_bsphere_setup\<close> holds iff the Skin or the Mirror modifier
  is present; the three axis toggles are rendered iff the Mirror modifier is present; the
  three marking buttons are rendered iff the Skin modifier is present; the level control
  is rendered iff the Subdivision modifier is present and \<^verbatim>\<open>has_bsphere_setup\<close> holds;
  the button of the Finalizer is rendered iff \<^verbatim>\<open>has_bsphere_setup\<close> holds.  No other
  control of these kinds is rendered.
\<close>

theorem panel_controls_of_present_stages:
  assumes "active_object s = Some ob" and "data ob = MeshData m"
  shows "has_bsphere_setup ob = (stage_present ob ''Skin'' \<or> stage_present ob ''Mirror'') \<and>
    filter is_mirror_control (snd (draw s)) =
      (if stage_present ob ''Mirror''
       then [UI_prop ''Mirror'' ''use_axis'' (Some 0) ''X'',
             UI_prop ''Mirror'' ''use_axis'' (Some 1) ''Y'',
             UI_prop ''Mirror'' ''use_axis'' (Some 2) ''Z'']
       else []) \<and>
    filter is_skin_control (snd (draw s)) =
      (if stage_present ob ''Skin''
       then [UI_operator ''object.skin_loose_mark_clear'' ''Mark Loose'' [(''action'', ''MARK'')],
             UI_operator ''object.skin_loose_mark_clear'' ''Clear Loose'' [(''action'', ''CLEAR'')],
             UI_operator ''object.skin_root_mark'' ''Mark Root'' []]
       else []) \<and>
    filter is_subsurf_control (snd (draw s)) =
      (if stage_present ob ''Subdivision'' \<and> has_bsphere_setup ob
       then [UI_prop ''Subdivision'' ''levels'' None []] else []) \<and>
    filter is_finalize_action (snd (draw s)) =
      (if has_bsphere_setup ob
       then [UI_operator ''tcg.apply_bsphere_modifiers'' ''Voxel Remesh & Apply'' []] else [])"
proof -
  have h: "has_bsphere_setup ob = (stage_present ob ''Skin'' \<or> stage_present ob ''Mirror'')"
    by (simp add: has_bsphere_setup_def stage_present_def)
  have m: "\<not> has_bsphere_setup ob \<Longrightarrow> \<not> stage_present ob ''Mirror''"
    and k: "\<not> has_bsphere_setup ob \<Longrightarrow> \<not> stage_present ob ''Skin''"
    using h by simp_all
  show ?thesis
    unfolding draw_mesh[OF assms]
    using h m k
    by (simp add: filter_fixed_sections filter_mirror_controls filter_subsurf_controls
        filter_skin_controls control_defs)
qed

text \<open>
  Claim C2 as stated fails: on a mesh object whose only modifier is the Subdivision one,
  the stage is present and its level control is not rendered.
\<close>

theorem panel_subdivision_alone_not_rendered:
  "active_object (state_of subdivision_only_object) = Some subdivision_only_object \<and>
   object_type subdivision_only_object = ''MESH'' \<and>
   stage_present subdivision_only_object ''Subdivision'' \<and>
   filter is_subsurf_control (snd (draw (state_of subdivision_only_object))) = []"
  by (simp add: state_of_def subdivision_only_object_def object_type_def stage_present_def
      modifiers_get_def draw_def has_bsphere_setup_def creation_section_def control_defs)

theorem panel_controls_of_present_stages_witness:
  "active_object (state_of subdivision_only_object) = Some subdivision_only_object \<and>
   data subdivision_only_object = MeshData example_mesh \<and>
   has_bsphere_setup subdivision_only_object = False \<and>
   filter is_mirror_control (snd (draw (state_of subdivision_only_object))) = [] \<and>
   filter is_skin_control (snd (draw (state_of subdivision_only_object))) = [] \<and>
   filter is_subsurf_control (snd (draw (state_of subdivision_only_object))) = [] \<and>
   filter is_finalize_action (snd (draw (state_of subdivision_only_object))) = []"
proof -
  have p1: "active_object (state_of subdivision_only_object) = Some subdivision_only_object"
    by (simp add: state_of_def)
  have p2: "data subdivision_only_object = MeshData example_mesh"
    by (simp add: subdivision_only_object_def)
  have q: "\<not> stage_present subdivision_only_object ''Skin''"
    "\<not> stage_present subdivision_only_object ''Mirror''"
    by (simp_all add: stage_present_def modifiers_get_def subdivision_only_object_def)
  show ?thesis
    using panel_controls_of_present_stages[OF p1 p2] p1 p2 q by simp
qed

text \<open>
  Claim C8.  \<^verbatim>\<open>draw\<close> returns the context it was given, unchanged: the active object,
  its mesh, the attributes of its vertices and its modifier stack with all settings.
  Drawn again on the context it returned, it renders the same layout.
\<close>

theorem draw_pure_and_idempotent:
  "fst (draw s) = s \<and> snd (draw (fst (draw s))) = snd (draw s)"
proof -
  have "fst (draw s) = s"
    by (simp add: draw_def Let_def split: option.splits)
  then show ?thesis by simp
qed

theorem draw_pure_and_idempotent_witness:
  "fst (draw (state_of example_object)) = state_of example_object \<and>
   snd (draw (fst (draw (state_of example_object)))) = snd (draw (state_of example_object))"
  by (rule draw_pure_and_idempotent)

end
